theory Spec2Isabelle
  imports Main
begin

section \<open>JavaScript values and text\<close>

text \<open>
  The bridge (\<^verbatim>\<open>src/index.js\<close>) is a JavaScript object with mutable fields whose methods
  react to events of a worker process. The model is a state record, and every method and
  every event handler is a function from the state (and the handler's argument) to the
  state afterwards, the continuations invoked on the way, and the exception raised, if any.

  Text is a \<open>string\<close>; its characters stand for code units below 256. Decoded JSON values
  and the values passed to continuations are \<open>jsval\<close>; numbers are restricted to integers.
\<close>

datatype jsval =
    Undefined
  | Null
  | Bool bool
  | Num int
  | Str string
  | Arr "jsval list"
  | Obj "(string \<times> jsval) list"

definition digit_char :: "nat \<Rightarrow> char" where
  "digit_char d = ''0123456789'' ! d"

text \<open>The decimal numeral of a number, as \<^verbatim>\<open>String(n)\<close> and \<^verbatim>\<open>JSON.stringify(n)\<close> print a
  non-negative integer below \<open>10^21\<close>; the identifiers and the clock readings the bridge
  prints are such numbers.\<close>

fun show_nat :: "nat \<Rightarrow> string" where
  "show_nat n =
     (if n < 10 then [digit_char n] else show_nat (n div 10) @ [digit_char (n mod 10)])"

declare show_nat.simps [simp del]

datatype fault = ReadOfNullish | NotAFunction | NoPrimitiveValue | UnknownEncoding

datatype jserror = Error string | TypeError fault

text \<open>\<^verbatim>\<open>ToString\<close>: the conversion applied by \<^verbatim>\<open>new Error(v)\<close> to its message and by
  \<^verbatim>\<open>obj[v]\<close> to its property key. An array prints its elements separated by commas, with
  \<^verbatim>\<open>null\<close> and \<^verbatim>\<open>undefined\<close> elements empty. A decoded object prints through the inherited
  \<^verbatim>\<open>toString\<close>; when it has a member \<^verbatim>\<open>toString\<close> of its own, which is never a function,
  no primitive value is found and the conversion raises a \<^verbatim>\<open>TypeError\<close>.\<close>

fun js_to_string :: "jsval \<Rightarrow> jserror + string"
  and js_join :: "jsval list \<Rightarrow> jserror + string"
where
  "js_to_string Undefined = Inr ''undefined''"
| "js_to_string Null = Inr ''null''"
| "js_to_string (Bool b) = Inr (if b then ''true'' else ''false'')"
| "js_to_string (Num n) =
     Inr (if n < 0 then CHR ''-'' # show_nat (nat (- n)) else show_nat (nat n))"
| "js_to_string (Str s) = Inr s"
| "js_to_string (Arr xs) = js_join xs"
| "js_to_string (Obj kvs) =
     (if map_of kvs ''toString'' = None then Inr ''[object Object]''
      else Inl (TypeError NoPrimitiveValue))"
| "js_join [] = Inr []"
| "js_join (x # xs) =
     (case (if x = Undefined \<or> x = Null then Inr [] else js_to_string x) of
        Inl e \<Rightarrow> Inl e
      | Inr s \<Rightarrow>
          if xs = [] then Inr s
          else (case js_join xs of
                  Inl e \<Rightarrow> Inl e
                | Inr t \<Rightarrow> Inr (s @ CHR '','' # t)))"

text \<open>\<^verbatim>\<open>new Error(v)\<close> for a \<open>v\<close> other than \<^verbatim>\<open>undefined\<close>.\<close>

definition new_Error :: "jsval \<Rightarrow> jserror + jserror" where
  "new_Error v = (case js_to_string v of Inl e \<Rightarrow> Inl e | Inr s \<Rightarrow> Inr (Error s))"

text \<open>\<^verbatim>\<open>String.prototype.trim\<close> removes white space and line terminators at both ends; below
  256 these are the code units 9 to 13, 32 and 160.\<close>

definition is_space :: "char \<Rightarrow> bool" where
  "is_space c = (c \<in> set [CHR 0x09, CHR 0x0A, CHR 0x0B, CHR 0x0C, CHR 0x0D, CHR 0x20, CHR 0xA0])"

definition trim :: "string \<Rightarrow> string" where
  "trim s = rev (dropWhile is_space (rev (dropWhile is_space s)))"

text \<open>The encodings \<^verbatim>\<open>setEncoding\<close> accepts, whatever the case of the letters (the empty
  name stands for \<^verbatim>\<open>utf8\<close>); on any other name it raises a \<^verbatim>\<open>TypeError\<close>.\<close>

definition lower_char :: "char \<Rightarrow> char" where
  "lower_char c =
     (case map_of (zip ''ABCDEFGHIJKLMNOPQRSTUVWXYZ'' ''abcdefghijklmnopqrstuvwxyz'') c of
        None \<Rightarrow> c
      | Some l \<Rightarrow> l)"

definition known_encoding :: "string \<Rightarrow> bool" where
  "known_encoding enc =
     (map lower_char enc \<in>
        set [''utf8'', ''utf-8'', ''ucs2'', ''ucs-2'', ''utf16le'', ''utf-16le'', ''latin1'',
             ''binary'', ''base64'', ''base64url'', ''ascii'', ''hex'', []])"

text \<open>Reading a property: \<^verbatim>\<open>v.k\<close> and \<^verbatim>\<open>v[k]\<close> raise on \<^verbatim>\<open>undefined\<close> and \<^verbatim>\<open>null\<close>;
  an absent property reads as \<^verbatim>\<open>undefined\<close>. Arrays and strings have a \<^verbatim>\<open>length\<close> and their
  elements at the array indices. The names read from decoded values (\<^verbatim>\<open>msgId\<close>, \<^verbatim>\<open>result\<close>,
  \<^verbatim>\<open>error\<close>, \<^verbatim>\<open>length\<close>, \<^verbatim>\<open>0\<close>) are inherited from no prototype.\<close>

definition digit_val :: "char \<Rightarrow> nat option" where
  "digit_val c =
     map_of [(CHR ''0'', 0), (CHR ''1'', 1), (CHR ''2'', 2), (CHR ''3'', 3), (CHR ''4'', 4),
             (CHR ''5'', 5), (CHR ''6'', 6), (CHR ''7'', 7), (CHR ''8'', 8), (CHR ''9'', 9)] c"

fun parse_digits :: "nat \<Rightarrow> string \<Rightarrow> nat \<times> string" where
  "parse_digits acc [] = (acc, [])"
| "parse_digits acc (c # cs) =
     (case digit_val c of
        Some d \<Rightarrow> parse_digits (acc * 10 + d) cs
      | None \<Rightarrow> (acc, c # cs))"

text \<open>An array index is a canonical decimal numeral below \<open>2^32 - 1\<close>.\<close>

definition array_index :: "string \<Rightarrow> nat option" where
  "array_index k =
     (case k of
        [] \<Rightarrow> None
      | c # cs \<Rightarrow>
          (case parse_digits 0 k of
             (n, rest) \<Rightarrow>
               if digit_val c \<noteq> None \<and> rest = [] \<and> (c \<noteq> CHR ''0'' \<or> cs = [])
                  \<and> n < 2 ^ 32 - 1
               then Some n else None))"

fun get_prop :: "jsval \<Rightarrow> string \<Rightarrow> jserror + jsval" where
  "get_prop Undefined k = Inl (TypeError ReadOfNullish)"
| "get_prop Null k = Inl (TypeError ReadOfNullish)"
| "get_prop (Obj kvs) k = Inr (case map_of kvs k of None \<Rightarrow> Undefined | Some v \<Rightarrow> v)"
| "get_prop (Arr xs) k =
     Inr (if k = ''length'' then Num (int (length xs))
          else case array_index k of
                 None \<Rightarrow> Undefined
               | Some i \<Rightarrow> if i < length xs then xs ! i else Undefined)"
| "get_prop (Str s) k =
     Inr (if k = ''length'' then Num (int (length s))
          else case array_index k of
                 None \<Rightarrow> Undefined
               | Some i \<Rightarrow> if i < length s then Str [s ! i] else Undefined)"
| "get_prop (Bool b) k = Inr Undefined"
| "get_prop (Num n) k = Inr Undefined"

section \<open>Continuations\<close>

text \<open>
  A continuation handed in by the caller is a function (\<open>Fn f\<close>, \<open>f\<close> naming it),
  \<^verbatim>\<open>null\<close> or \<^verbatim>\<open>undefined\<close>. Caller code is opaque: invoking \<open>Fn f\<close> is recorded as a
  \<open>call\<close> and assumed to return normally; invoking anything else raises a
  \<^verbatim>\<open>TypeError\<close>. \<open>Callback f err v\<close> is the call \<^verbatim>\<open>f(err, v)\<close>, with \<open>None\<close> for an \<open>err\<close>
  of \<^verbatim>\<open>null\<close> and \<open>Undefined\<close> for a \<open>v\<close> that is not passed. \<open>Resolve\<close> and \<open>Reject\<close>
  record the calls of a promise's two functions, the promise named by a number the caller
  chooses.
\<close>

datatype cb = Fn nat | CbNull | CbUndefined

datatype call =
    Callback nat "jserror option" jsval
  | Resolve nat jsval
  | Reject nat jserror

fun invoke :: "cb \<Rightarrow> jserror option \<Rightarrow> jsval \<Rightarrow> call list \<times> jserror option" where
  "invoke (Fn f) err v = ([Callback f err v], None)"
| "invoke CbNull err v = ([], Some (TypeError NotAFunction))"
| "invoke CbUndefined err v = ([], Some (TypeError NotAFunction))"

text \<open>The callback that \<^verbatim>\<open>connectCore\<close> receives: the caller's own (\<^verbatim>\<open>connect\<close>), or the
  closure of \<^verbatim>\<open>connectAsync\<close> that rejects on an error and resolves otherwise.\<close>

datatype conn_cb = ConnCb cb | ConnPromise nat

fun invoke_conn :: "conn_cb \<Rightarrow> jserror option \<Rightarrow> jsval \<Rightarrow> call list \<times> jserror option" where
  "invoke_conn (ConnCb c) err v = invoke c err v"
| "invoke_conn (ConnPromise p) (Some e) v = ([Reject p e], None)"
| "invoke_conn (ConnPromise p) None v = ([Resolve p v], None)"

section \<open>The Pending Request Table\<close>

text \<open>
  \<^verbatim>\<open>currentMessages\<close> is a JavaScript object used as a dictionary. It starts as the plain
  object \<^verbatim>\<open>{ cat: 1 }\<close>, and a channel fault puts an empty array in its place. Its own
  properties are an association list from property keys to values, kept in the order
  \<^verbatim>\<open>for ... in\<close> enumerates them (array indices ascending, then the other keys in creation
  order); the values are the messages stored by \<^verbatim>\<open>prepareQuery\<close> and the number of \<^verbatim>\<open>cat\<close>.
  Reading a key that is not its own goes on to the prototype chain: \<open>TInherited\<close> stands for
  what is found there (a built-in function, the prototype object, or the \<^verbatim>\<open>length\<close> of the
  array), none of which has a \<^verbatim>\<open>callback\<close> or an \<^verbatim>\<open>hrstart\<close>. The names are those of
  \<^verbatim>\<open>Object.prototype\<close> and \<^verbatim>\<open>Array.prototype\<close> in ECMAScript 2023.
\<close>

record message =
  msgId :: nat
  sql :: string
  sentTime :: nat
  callback :: cb
  hrstart :: "nat \<times> nat"

datatype tval = TNum int | TMsg message | TInherited

datatype table =
    ObjectTable "(string \<times> tval) list"
  | ArrayTable "(string \<times> tval) list"

fun entries :: "table \<Rightarrow> (string \<times> tval) list" where
  "entries (ObjectTable es) = es"
| "entries (ArrayTable es) = es"

fun map_entries ::
  "((string \<times> tval) list \<Rightarrow> (string \<times> tval) list) \<Rightarrow> table \<Rightarrow> table" where
  "map_entries f (ObjectTable es) = ObjectTable (f es)"
| "map_entries f (ArrayTable es) = ArrayTable (f es)"

definition object_prototype :: "string list" where
  "object_prototype =
     [''constructor'', ''hasOwnProperty'', ''isPrototypeOf'', ''propertyIsEnumerable'',
      ''toLocaleString'', ''toString'', ''valueOf'', ''__proto__'', ''__defineGetter__'',
      ''__defineSetter__'', ''__lookupGetter__'', ''__lookupSetter__'']"

definition array_prototype :: "string list" where
  "array_prototype =
     [''at'', ''concat'', ''copyWithin'', ''entries'', ''every'', ''fill'', ''filter'',
      ''find'', ''findIndex'', ''findLast'', ''findLastIndex'', ''flat'', ''flatMap'',
      ''forEach'', ''includes'', ''indexOf'', ''join'', ''keys'', ''lastIndexOf'', ''map'',
      ''pop'', ''push'', ''reduce'', ''reduceRight'', ''reverse'', ''shift'', ''slice'',
      ''some'', ''sort'', ''splice'', ''toReversed'', ''toSorted'', ''toSpliced'',
      ''unshift'', ''values'', ''with'']"

fun inherited :: "table \<Rightarrow> string list" where
  "inherited (ObjectTable es) = object_prototype"
| "inherited (ArrayTable es) = ''length'' # array_prototype @ object_prototype"

definition tbl_get :: "table \<Rightarrow> string \<Rightarrow> tval option" where
  "tbl_get t k =
     (case map_of (entries t) k of
        Some v \<Rightarrow> Some v
      | None \<Rightarrow> if k \<in> set (inherited t) then Some TInherited else None)"

definition tbl_delete :: "string \<Rightarrow> table \<Rightarrow> table" where
  "tbl_delete k t = map_entries (filter (\<lambda>e. fst e \<noteq> k)) t"

fun tbl_insert :: "string \<Rightarrow> tval \<Rightarrow> (string \<times> tval) list \<Rightarrow> (string \<times> tval) list" where
  "tbl_insert k v [] = [(k, v)]"
| "tbl_insert k v ((k', v') # t) =
     (case array_index k of
        None \<Rightarrow> (k', v') # tbl_insert k v t
      | Some i \<Rightarrow>
          (case array_index k' of
             None \<Rightarrow> (k, v) # (k', v') # t
           | Some j \<Rightarrow> if i < j then (k, v) # (k', v') # t else (k', v') # tbl_insert k v t))"

definition tbl_set :: "string \<Rightarrow> tval \<Rightarrow> table \<Rightarrow> table" where
  "tbl_set k v t =
     map_entries
       (\<lambda>es. if map_of es k = None then tbl_insert k v es
             else map (\<lambda>e. if fst e = k then (k, v) else e) es) t"

text \<open>The property \<^verbatim>\<open>callback\<close> of a table value: the stored continuation of a message,
  \<^verbatim>\<open>undefined\<close> on anything else.\<close>

fun callback_of :: "tval \<Rightarrow> cb" where
  "callback_of (TMsg m) = callback m"
| "callback_of (TNum n) = CbUndefined"
| "callback_of TInherited = CbUndefined"

section \<open>The bridge object\<close>

text \<open>
  The listeners attached to the worker's streams and to the shared JSON parser are kept as
  tags, in the order they were attached. \<open>stdin\<close> is the list of chunks written to the
  worker's input so far. The state holds the current worker only: the events of a worker
  replaced by a later \<^verbatim>\<open>connect\<close> are not modelled. Console logging (\<^verbatim>\<open>this.log\<close>) and the
  timing figures computed only for it have no effect on the state and are left out.
\<close>

datatype stdout_listener = HandshakeOut conn_cb | PipeToParser

datatype stderr_listener = HandshakeErr conn_cb | OnSQLError

datatype parser_listener = OnSQLResponse | OnResponse nat

record process =
  killed :: bool
  stdin :: "string list"
  stdout_data :: "stdout_listener list"
  stderr_data :: "stderr_listener list"

record sybase =
  connected :: bool
  host :: string
  port :: string
  database :: string
  username :: string
  password :: string
  logTiming :: bool
  encoding :: string
  logs :: bool
  pathToJavaBridge :: string
  queryCount :: nat
  currentMessages :: table
  jsonParser :: "parser_listener list"
  javaDB :: "process option"

text \<open>The constructor. \<open>lt\<close> is whether the option \<^verbatim>\<open>logTiming\<close> is exactly \<^verbatim>\<open>true\<close>, and
  \<open>path\<close> is the path of the worker's archive after the default has been resolved.\<close>

definition Sybase ::
  "string \<Rightarrow> string \<Rightarrow> string \<Rightarrow> string \<Rightarrow> string \<Rightarrow> bool \<Rightarrow> string \<Rightarrow> string \<Rightarrow> bool \<Rightarrow> sybase"
where
  "Sybase h p d u pw lt path enc lg =
     \<lparr> connected = False, host = h, port = p, database = d, username = u, password = pw,
       logTiming = lt, encoding = enc, logs = lg, pathToJavaBridge = path,
       queryCount = 0, currentMessages = ObjectTable [(''cat'', TNum 1)], jsonParser = [],
       javaDB = None \<rparr>"

definition isConnected :: "sybase \<Rightarrow> bool" where
  "isConnected st = connected st"

type_synonym outcome = "sybase \<times> call list \<times> jserror option"

section \<open>Submitting a query\<close>

text \<open>
  \<^verbatim>\<open>this.queryCount++\<close> on a JavaScript number, which is a double: exact below \<open>2^53\<close>,
  while \<open>2^53 + 1\<close> is not representable and rounds back to \<open>2^53\<close> (ties to even), so
  a counter that has reached \<open>2^53\<close> stays there.
\<close>

definition js_incr :: "nat \<Rightarrow> nat" where
  "js_incr n = (if n < 2 ^ 53 then n + 1 else n)"

definition hex_digit :: "nat \<Rightarrow> char" where
  "hex_digit d = ''0123456789abcdef'' ! d"

text \<open>\<^verbatim>\<open>JSON.stringify\<close> on a string (\<^verbatim>\<open>QuoteJSONString\<close>): the quote, the backslash and the
  code units below 32 are escaped, everything else is copied.\<close>

definition json_escape :: "char \<Rightarrow> string" where
  "json_escape c =
     (if c = CHR 0x08 then [CHR 0x5C, CHR ''b'']
      else if c = CHR 0x09 then [CHR 0x5C, CHR ''t'']
      else if c = CHR 0x0A then [CHR 0x5C, CHR ''n'']
      else if c = CHR 0x0C then [CHR 0x5C, CHR ''f'']
      else if c = CHR 0x0D then [CHR 0x5C, CHR ''r'']
      else if c = CHR 0x22 then [CHR 0x5C, CHR 0x22]
      else if c = CHR 0x5C then [CHR 0x5C, CHR 0x5C]
      else if (of_char c :: nat) < 32
        then [CHR 0x5C, CHR ''u'', CHR ''0'', CHR ''0'',
              hex_digit ((of_char c :: nat) div 16), hex_digit ((of_char c :: nat) mod 16)]
      else [c])"

definition json_quote :: "string \<Rightarrow> string" where
  "json_quote s = CHR 0x22 # concat (map json_escape s) @ [CHR 0x22]"

text \<open>\<^verbatim>\<open>JSON.stringify(msg)\<close> on the object built by \<^verbatim>\<open>prepareQuery\<close>: the properties in
  creation order, a property whose value is a function or \<^verbatim>\<open>undefined\<close> left out, \<^verbatim>\<open>null\<close>
  printed, the pair of \<^verbatim>\<open>process.hrtime()\<close> printed as an array.\<close>

definition JSON_stringify :: "message \<Rightarrow> string" where
  \<open>JSON_stringify m =
     ''{"msgId":'' @ show_nat (msgId m)
     @ '',"sql":'' @ json_quote (sql m)
     @ '',"sentTime":'' @ show_nat (sentTime m)
     @ (case callback m of CbNull \<Rightarrow> '',"callback":null'' | _ \<Rightarrow> [])
     @ '',"hrstart":['' @ show_nat (fst (hrstart m)) @ '','' @ show_nat (snd (hrstart m))
     @ '']}''\<close>

text \<open>\<^verbatim>\<open>.replace(/[\n]/g, "\\n")\<close>: every line feed becomes a backslash and an \<open>n\<close>.\<close>

definition replace_nl :: "string \<Rightarrow> string" where
  "replace_nl s = concat (map (\<lambda>c. if c = CHR 0x0A then [CHR 0x5C, CHR ''n''] else [c]) s)"

text \<open>\<open>now\<close> is the reading of \<^verbatim>\<open>new Date().getTime()\<close> and \<open>hr\<close> that of
  \<^verbatim>\<open>process.hrtime()\<close>. The third component is the returned text, \<open>None\<close> for \<^verbatim>\<open>null\<close>.\<close>

definition prepareQuery ::
  "sybase \<Rightarrow> string \<Rightarrow> cb \<Rightarrow> nat \<Rightarrow> nat \<times> nat \<Rightarrow> sybase \<times> call list \<times> string option"
where
  "prepareQuery st q c now hr =
     (if \<not> isConnected st then
        (st,
         (case c of
            Fn f \<Rightarrow> [Callback f (Some (Error ''Database isn't connected.'')) Undefined]
          | _ \<Rightarrow> []),
         None)
      else
        let n = js_incr (queryCount st);
            msg = \<lparr> msgId = n, sql = q, sentTime = now, callback = c, hrstart = hr \<rparr>;
            strMsg = replace_nl (JSON_stringify msg)
        in (st\<lparr> queryCount := n,
                 currentMessages := tbl_set (show_nat n) (TMsg msg) (currentMessages st) \<rparr>,
            [], Some strMsg))"

text \<open>\<^verbatim>\<open>this.javaDB.stdin.write(text)\<close>; \<^verbatim>\<open>this.javaDB\<close> is \<^verbatim>\<open>undefined\<close> until the first
  \<^verbatim>\<open>connect\<close>.\<close>

definition stdin_write :: "sybase \<Rightarrow> string \<Rightarrow> jserror + sybase" where
  "stdin_write st text =
     (case javaDB st of
        None \<Rightarrow> Inl (TypeError ReadOfNullish)
      | Some p \<Rightarrow> Inr (st\<lparr> javaDB := Some (p\<lparr> stdin := stdin p @ [text] \<rparr>) \<rparr>))"

definition query :: "sybase \<Rightarrow> string \<Rightarrow> cb \<Rightarrow> nat \<Rightarrow> nat \<times> nat \<Rightarrow> outcome" where
  "query st q c now hr =
     (case prepareQuery st q c now hr of
        (st1, calls, None) \<Rightarrow> (st1, calls, None)
      | (st1, calls, Some strMsg) \<Rightarrow>
          (case stdin_write st1 (strMsg @ [CHR 0x0A]) of
             Inl e \<Rightarrow> (st1, calls, Some e)
           | Inr st2 \<Rightarrow> (st2, calls, None)))"

text \<open>\<^verbatim>\<open>querySync\<close> runs inside the executor of a new promise \<open>p\<close>; an exception raised there
  rejects the promise.\<close>

definition querySync :: "sybase \<Rightarrow> string \<Rightarrow> nat \<Rightarrow> nat \<Rightarrow> nat \<times> nat \<Rightarrow> outcome" where
  "querySync st q p now hr =
     (case prepareQuery st q CbNull now hr of
        (st1, calls, None) \<Rightarrow>
          (st1, calls @ [Reject p (Error ''Database isn't connected.'')], None)
      | (st1, calls, Some strMsg) \<Rightarrow>
          let st2 = st1\<lparr> jsonParser := jsonParser st1 @ [OnResponse p] \<rparr>
          in (case stdin_write st2 (strMsg @ [CHR 0x0A]) of
                Inl e \<Rightarrow> (st2, calls @ [Reject p e], None)
              | Inr st3 \<Rightarrow> (st3, calls, None)))"

section \<open>Connecting\<close>

definition upd_process :: "(process \<Rightarrow> process) \<Rightarrow> sybase \<Rightarrow> sybase" where
  "upd_process f st = st\<lparr> javaDB := map_option f (javaDB st) \<rparr>"

text \<open>\<^verbatim>\<open>spawn\<close> starts a new worker; one handshake listener is attached with \<^verbatim>\<open>once\<close> to
  each of its output and error streams. Failure to start the worker is outside the model.\<close>

definition connectCore :: "sybase \<Rightarrow> conn_cb \<Rightarrow> sybase" where
  "connectCore st c =
     st\<lparr> javaDB := Some \<lparr> killed = False, stdin = [],
                             stdout_data = [HandshakeOut c], stderr_data = [HandshakeErr c] \<rparr> \<rparr>"

definition connect :: "sybase \<Rightarrow> cb \<Rightarrow> sybase" where
  "connect st c = connectCore st (ConnCb c)"

definition connectAsync :: "sybase \<Rightarrow> nat \<Rightarrow> sybase" where
  "connectAsync st p = connectCore st (ConnPromise p)"

text \<open>The body of the listener on the worker's output during the handshake. On success
  \<^verbatim>\<open>stdout.setEncoding(this.encoding)\<close> comes after \<^verbatim>\<open>connected\<close> is set and before the
  parser and the callback.\<close>

definition onHandshakeData :: "sybase \<Rightarrow> conn_cb \<Rightarrow> string \<Rightarrow> outcome" where
  "onHandshakeData st c data =
     (let dataStr = trim data in
      if dataStr \<noteq> ''connected'' then
        (case invoke_conn c (Some (Error (''Error connecting '' @ dataStr))) Null of
           (calls, e) \<Rightarrow> (st, calls, e))
      else
        let st1 = upd_process (\<lambda>p. p\<lparr> stderr_data := [] \<rparr>) st;
            st2 = st1\<lparr> connected := True \<rparr>
        in if \<not> known_encoding (encoding st2) then (st2, [], Some (TypeError UnknownEncoding))
           else
             let st3 = upd_process (\<lambda>p. p\<lparr> stdout_data := stdout_data p @ [PipeToParser] \<rparr>) st2;
                 st4 = st3\<lparr> jsonParser := jsonParser st3 @ [OnSQLResponse] \<rparr>;
                 st5 = upd_process (\<lambda>p. p\<lparr> stderr_data := stderr_data p @ [OnSQLError] \<rparr>) st4
             in (case invoke_conn c None (Str dataStr) of
                   (calls, e) \<Rightarrow> (st5, calls, e)))"

text \<open>The body of the listener on the worker's error stream during the handshake.\<close>

definition onHandshakeError :: "sybase \<Rightarrow> conn_cb \<Rightarrow> string \<Rightarrow> outcome" where
  "onHandshakeError st c data =
     (let st1 = upd_process (\<lambda>p. p\<lparr> stdout_data := [] \<rparr>) st;
          st2 = upd_process (\<lambda>p. p\<lparr> killed := True \<rparr>) st1
      in (case invoke_conn c (Some (Error data)) Null of
            (calls, e) \<Rightarrow> (st2, calls, e)))"

section \<open>Response and error dispatch\<close>

text \<open>\<open>jsonMsg\<close> is the decoded JSON value. The table is read and the entry deleted first;
  \<^verbatim>\<open>process.hrtime(request.hrstart)\<close> raises when \<^verbatim>\<open>request\<close> is \<^verbatim>\<open>undefined\<close>.\<close>

definition onSQLResponse :: "sybase \<Rightarrow> jsval \<Rightarrow> outcome" where
  "onSQLResponse st jsonMsg =
     (case get_prop jsonMsg ''msgId'' of
        Inl e \<Rightarrow> (st, [], Some e)
      | Inr mid \<Rightarrow>
          (case js_to_string mid of
             Inl e \<Rightarrow> (st, [], Some e)
           | Inr key \<Rightarrow>
               let request = tbl_get (currentMessages st) key;
                   st1 = st\<lparr> currentMessages := tbl_delete key (currentMessages st) \<rparr>
               in (case get_prop jsonMsg ''result'' of
                     Inl e \<Rightarrow> (st1, [], Some e)
                   | Inr res \<Rightarrow>
                       (case get_prop res ''length'' of
                          Inl e \<Rightarrow> (st1, [], Some e)
                        | Inr len \<Rightarrow>
                            (case (if len = Num 1 then get_prop res ''0'' else Inr res) of
                               Inl e \<Rightarrow> (st1, [], Some e)
                             | Inr result \<Rightarrow>
                                 (case request of
                                    None \<Rightarrow> (st1, [], Some (TypeError ReadOfNullish))
                                  | Some r \<Rightarrow>
                                      (case get_prop jsonMsg ''error'' of
                                         Inl e \<Rightarrow> (st1, [], Some e)
                                       | Inr er \<Rightarrow>
                                           (case (if er = Undefined then Inr None
                                                  else map_sum id Some (new_Error er)) of
                                              Inl e \<Rightarrow> (st1, [], Some e)
                                            | Inr err \<Rightarrow>
                                                (case invoke (callback_of r) err result of
                                                   (calls, e) \<Rightarrow> (st1, calls, e))))))))))"

text \<open>\<^verbatim>\<open>forEach\<close> over the collected continuations: each is invoked with the error alone, and
  an exception ends the loop.\<close>

fun forEach_cb :: "cb list \<Rightarrow> jserror \<Rightarrow> call list \<times> jserror option" where
  "forEach_cb [] err = ([], None)"
| "forEach_cb (c # cs) err =
     (case invoke c (Some err) Undefined of
        (calls, Some e) \<Rightarrow> (calls, Some e)
      | (calls, None) \<Rightarrow> (case forEach_cb cs err of (calls', e) \<Rightarrow> (calls @ calls', e)))"

definition onSQLError :: "sybase \<Rightarrow> string \<Rightarrow> outcome" where
  "onSQLError st data =
     (let callBackFuncitons = map (\<lambda>e. callback_of (snd e)) (entries (currentMessages st));
          st1 = st\<lparr> currentMessages := ArrayTable [] \<rparr>
      in (case forEach_cb callBackFuncitons (Error data) of
            (calls, e) \<Rightarrow> (st1, calls, e)))"

text \<open>The listener that \<^verbatim>\<open>querySync\<close> adds to the shared parser for its promise \<open>p\<close>. It compares
  with the counter as it is when the message arrives. \<^verbatim>\<open>removeListener\<close> removes the instance
  added last.\<close>

definition remove_last :: "'a \<Rightarrow> 'a list \<Rightarrow> 'a list" where
  "remove_last x xs = rev (remove1 x (rev xs))"

definition onResponse :: "sybase \<Rightarrow> nat \<Rightarrow> jsval \<Rightarrow> outcome" where
  "onResponse st p jsonMsg =
     (case get_prop jsonMsg ''msgId'' of
        Inl e \<Rightarrow> (st, [], Some e)
      | Inr mid \<Rightarrow>
          if mid = Num (int (queryCount st)) then
            let st1 = st\<lparr> jsonParser := remove_last (OnResponse p) (jsonParser st) \<rparr>
            in (case get_prop jsonMsg ''error'' of
                  Inl e \<Rightarrow> (st1, [], Some e)
                | Inr er \<Rightarrow>
                    if er \<noteq> Undefined then
                      (case new_Error er of
                         Inl e \<Rightarrow> (st1, [], Some e)
                       | Inr err \<Rightarrow> (st1, [Reject p err], None))
                    else (case get_prop jsonMsg ''result'' of
                            Inl e \<Rightarrow> (st1, [], Some e)
                          | Inr res \<Rightarrow> (st1, [Resolve p res], None)))
          else (st, [], None))"

section \<open>Event delivery\<close>

text \<open>\<^verbatim>\<open>EventEmitter.emit\<close>: the listeners attached when the event is emitted are called in the
  order they were attached; an exception raised by a listener leaves \<^verbatim>\<open>emit\<close> and the
  listeners after it are not called.\<close>

fun emit :: "('l \<Rightarrow> 'd \<Rightarrow> sybase \<Rightarrow> outcome) \<Rightarrow> 'l list \<Rightarrow> 'd \<Rightarrow> sybase \<Rightarrow> outcome" where
  "emit handler [] d st = (st, [], None)"
| "emit handler (l # ls) d st =
     (case handler l d st of
        (st1, calls, Some e) \<Rightarrow> (st1, calls, Some e)
      | (st1, calls, None) \<Rightarrow>
          (case emit handler ls d st1 of (st2, calls', e) \<Rightarrow> (st2, calls @ calls', e)))"

text \<open>A listener attached with \<^verbatim>\<open>once\<close> is detached before its body runs. The chunk piped to
  the parser is decoded outside the model; the decoded values arrive by \<open>jsonParser_data\<close>.\<close>

fun run_stdout :: "stdout_listener \<Rightarrow> string \<Rightarrow> sybase \<Rightarrow> outcome" where
  "run_stdout (HandshakeOut c) d st =
     onHandshakeData
       (upd_process (\<lambda>p. p\<lparr> stdout_data := remove1 (HandshakeOut c) (stdout_data p) \<rparr>) st) c d"
| "run_stdout PipeToParser d st = (st, [], None)"

fun run_stderr :: "stderr_listener \<Rightarrow> string \<Rightarrow> sybase \<Rightarrow> outcome" where
  "run_stderr (HandshakeErr c) d st =
     onHandshakeError
       (upd_process (\<lambda>p. p\<lparr> stderr_data := remove1 (HandshakeErr c) (stderr_data p) \<rparr>) st) c d"
| "run_stderr OnSQLError d st = onSQLError st d"

fun run_parser :: "parser_listener \<Rightarrow> jsval \<Rightarrow> sybase \<Rightarrow> outcome" where
  "run_parser OnSQLResponse jsonMsg st = onSQLResponse st jsonMsg"
| "run_parser (OnResponse p) jsonMsg st = onResponse st p jsonMsg"

text \<open>The three events of the worker: a chunk on its output, a chunk on its error stream,
  a decoded JSON value from the parser.\<close>

definition stdout_data_event :: "sybase \<Rightarrow> string \<Rightarrow> outcome" where
  "stdout_data_event st d =
     (case javaDB st of
        None \<Rightarrow> (st, [], None)
      | Some p \<Rightarrow> emit run_stdout (stdout_data p) d st)"

definition stderr_data_event :: "sybase \<Rightarrow> string \<Rightarrow> outcome" where
  "stderr_data_event st d =
     (case javaDB st of
        None \<Rightarrow> (st, [], None)
      | Some p \<Rightarrow> emit run_stderr (stderr_data p) d st)"

definition jsonParser_data :: "sybase \<Rightarrow> jsval \<Rightarrow> outcome" where
  "jsonParser_data st jsonMsg = emit run_parser (jsonParser st) jsonMsg st"

section \<open>Teardown\<close>

definition disconnect :: "sybase \<Rightarrow> outcome" where
  "disconnect st =
     (case javaDB st of
        None \<Rightarrow> (st, [], Some (TypeError ReadOfNullish))
      | Some p \<Rightarrow> (st\<lparr> javaDB := Some (p\<lparr> killed := True \<rparr>), connected := False \<rparr>, [], None))"

section \<open>Decoding a wire line\<close>

text \<open>
  What the worker reads back from a line: a decoder for JSON text without white space
  whose numbers are non-negative integers, which covers every line the bridge writes. It is
  the reference against which the written line is judged; \<open>fuel\<close> bounds the nesting and the
  number of members, and the length of the text is always enough.
\<close>

definition hex_val :: "char \<Rightarrow> nat option" where
  "hex_val c =
     (case digit_val c of
        Some d \<Rightarrow> Some d
      | None \<Rightarrow>
          if c = CHR ''a'' \<or> c = CHR ''A'' then Some 10
          else if c = CHR ''b'' \<or> c = CHR ''B'' then Some 11
          else if c = CHR ''c'' \<or> c = CHR ''C'' then Some 12
          else if c = CHR ''d'' \<or> c = CHR ''D'' then Some 13
          else if c = CHR ''e'' \<or> c = CHR ''E'' then Some 14
          else if c = CHR ''f'' \<or> c = CHR ''F'' then Some 15
          else None)"

definition unescape_char :: "char \<Rightarrow> char option" where
  "unescape_char e =
     (if e = CHR 0x22 then Some (CHR 0x22)
      else if e = CHR 0x5C then Some (CHR 0x5C)
      else if e = CHR ''/'' then Some (CHR ''/'')
      else if e = CHR ''b'' then Some (CHR 0x08)
      else if e = CHR ''f'' then Some (CHR 0x0C)
      else if e = CHR ''n'' then Some (CHR 0x0A)
      else if e = CHR ''r'' then Some (CHR 0x0D)
      else if e = CHR ''t'' then Some (CHR 0x09)
      else None)"

definition hex4 :: "char \<Rightarrow> char \<Rightarrow> char \<Rightarrow> char \<Rightarrow> char option" where
  "hex4 h1 h2 h3 h4 =
     (case (hex_val h1, hex_val h2, hex_val h3, hex_val h4) of
        (Some a, Some b, Some c, Some d) \<Rightarrow>
          if ((a * 16 + b) * 16 + c) * 16 + d < 256
          then Some (char_of (((a * 16 + b) * 16 + c) * 16 + d)) else None
      | _ \<Rightarrow> None)"

definition cons_fst :: "'a \<Rightarrow> ('a list \<times> 'b) option \<Rightarrow> ('a list \<times> 'b) option" where
  "cons_fst x r = map_option (\<lambda>(xs, rest). (x # xs, rest)) r"

text \<open>The characters of a string literal after its opening quote, up to the closing one.\<close>

fun parse_chars :: "string \<Rightarrow> (string \<times> string) option" where
  "parse_chars [] = None"
| "parse_chars (c # cs) =
     (if c = CHR 0x22 then Some ([], cs)
      else if c = CHR 0x5C then
        (case cs of
           [] \<Rightarrow> None
         | e # r \<Rightarrow>
             if e = CHR ''u'' then
               (case r of
                  h1 # h2 # h3 # h4 # r' \<Rightarrow>
                    (case hex4 h1 h2 h3 h4 of
                       None \<Rightarrow> None
                     | Some d \<Rightarrow> cons_fst d (parse_chars r'))
                | _ \<Rightarrow> None)
             else
               (case unescape_char e of
                  None \<Rightarrow> None
                | Some d \<Rightarrow> cons_fst d (parse_chars r)))
      else if (of_char c :: nat) < 32 then None
      else cons_fst c (parse_chars cs))"

fun parse_value :: "nat \<Rightarrow> string \<Rightarrow> (jsval \<times> string) option"
  and parse_elements :: "nat \<Rightarrow> string \<Rightarrow> (jsval list \<times> string) option"
  and parse_members :: "nat \<Rightarrow> string \<Rightarrow> ((string \<times> jsval) list \<times> string) option"
where
  "parse_value 0 s = None"
| "parse_value (Suc fuel) [] = None"
| "parse_value (Suc fuel) (c # cs) =
     (if c = CHR 0x22 then map_option (\<lambda>(t, r). (Str t, r)) (parse_chars cs)
      else if c = CHR ''['' then
        (case cs of
           [] \<Rightarrow> None
         | d # ds \<Rightarrow>
             if d = CHR '']'' then Some (Arr [], ds)
             else map_option (\<lambda>(vs, r). (Arr vs, r)) (parse_elements fuel cs))
      else if c = CHR ''{'' then
        (case cs of
           [] \<Rightarrow> None
         | d # ds \<Rightarrow>
             if d = CHR ''}'' then Some (Obj [], ds)
             else map_option (\<lambda>(ms, r). (Obj ms, r)) (parse_members fuel cs))
      else if c = CHR ''0'' then Some (Num 0, cs)
      else if digit_val c \<noteq> None then
        (case parse_digits 0 (c # cs) of (n, r) \<Rightarrow> Some (Num (int n), r))
      else if take 4 (c # cs) = ''null'' then Some (Null, drop 4 (c # cs))
      else if take 4 (c # cs) = ''true'' then Some (Bool True, drop 4 (c # cs))
      else if take 5 (c # cs) = ''false'' then Some (Bool False, drop 5 (c # cs))
      else None)"
| "parse_elements 0 s = None"
| "parse_elements (Suc fuel) s =
     (case parse_value fuel s of
        None \<Rightarrow> None
      | Some (v, r) \<Rightarrow>
          (case r of
             [] \<Rightarrow> None
           | d # ds \<Rightarrow>
               if d = CHR '']'' then Some ([v], ds)
               else if d = CHR '','' then cons_fst v (parse_elements fuel ds)
               else None))"
| "parse_members 0 s = None"
| "parse_members (Suc fuel) s =
     (case s of
        [] \<Rightarrow> None
      | q # s1 \<Rightarrow>
          if q \<noteq> CHR 0x22 then None
          else
            (case parse_chars s1 of
               None \<Rightarrow> None
             | Some (k, r) \<Rightarrow>
                 (case r of
                    [] \<Rightarrow> None
                  | colon # r1 \<Rightarrow>
                      if colon \<noteq> CHR '':'' then None
                      else
                        (case parse_value fuel r1 of
                           None \<Rightarrow> None
                         | Some (v, r2) \<Rightarrow>
                             (case r2 of
                                [] \<Rightarrow> None
                              | d # ds \<Rightarrow>
                                  if d = CHR ''}'' then Some ([(k, v)], ds)
                                  else if d = CHR '','' then
                                    cons_fst (k, v) (parse_members fuel ds)
                                  else None)))))"

definition JSON_parse :: "string \<Rightarrow> jsval option" where
  "JSON_parse s =
     (case parse_value (length s) s of
        Some (v, []) \<Rightarrow> Some v
      | _ \<Rightarrow> None)"

text \<open>The members of the object a line decodes to, and one of them.\<close>

definition wire_fields :: "string \<Rightarrow> (string \<times> jsval) list option" where
  "wire_fields line = (case JSON_parse line of Some (Obj ms) \<Rightarrow> Some ms | _ \<Rightarrow> None)"

definition wire_field :: "string \<Rightarrow> string \<Rightarrow> jsval option" where
  "wire_field line k = (case wire_fields line of None \<Rightarrow> None | Some ms \<Rightarrow> map_of ms k)"

text \<open>The properties of the message that \<^verbatim>\<open>JSON.stringify\<close> prints, as decoded values.\<close>

definition wire_members :: "message \<Rightarrow> (string \<times> jsval) list" where
  "wire_members m =
     [(''msgId'', Num (int (msgId m))), (''sql'', Str (sql m)),
      (''sentTime'', Num (int (sentTime m)))]
     @ (case callback m of CbNull \<Rightarrow> [(''callback'', Null)] | _ \<Rightarrow> [])
     @ [(''hrstart'', Arr [Num (int (fst (hrstart m))), Num (int (snd (hrstart m)))])]"

section \<open>Runs of the bridge\<close>

text \<open>
  The operations of the host and the events of the worker, and the bridge driven through a
  list of them. An exception ends the operation it is raised in; what the host does with it
  is outside the model, and the run goes on from the state that operation left.
  \<open>allocated\<close> is the identifier a submission puts on the wire, read from the line
  \<^verbatim>\<open>prepareQuery\<close> returns.
\<close>

datatype op =
    DoConnect cb
  | DoConnectAsync nat
  | DoQuery string cb nat "nat \<times> nat"
  | DoQuerySync string nat nat "nat \<times> nat"
  | DoDisconnect
  | StdoutData string
  | StderrData string
  | ParserData jsval

fun step :: "sybase \<Rightarrow> op \<Rightarrow> outcome" where
  "step st (DoConnect c) = (connect st c, [], None)"
| "step st (DoConnectAsync p) = (connectAsync st p, [], None)"
| "step st (DoQuery q c now hr) = query st q c now hr"
| "step st (DoQuerySync q p now hr) = querySync st q p now hr"
| "step st DoDisconnect = disconnect st"
| "step st (StdoutData d) = stdout_data_event st d"
| "step st (StderrData d) = stderr_data_event st d"
| "step st (ParserData jsonMsg) = jsonParser_data st jsonMsg"

fun allocated :: "sybase \<Rightarrow> op \<Rightarrow> jsval option" where
  "allocated st (DoQuery q c now hr) =
     (case prepareQuery st q c now hr of
        (st1, calls, Some strMsg) \<Rightarrow> wire_field strMsg ''msgId''
      | (st1, calls, None) \<Rightarrow> None)"
| "allocated st (DoQuerySync q p now hr) =
     (case prepareQuery st q CbNull now hr of
        (st1, calls, Some strMsg) \<Rightarrow> wire_field strMsg ''msgId''
      | (st1, calls, None) \<Rightarrow> None)"
| "allocated st other = None"

fun run :: "sybase \<Rightarrow> op list \<Rightarrow> sybase" where
  "run st [] = st"
| "run st (x # xs) = run (fst (step st x)) xs"

fun identifiers :: "sybase \<Rightarrow> op list \<Rightarrow> jsval list" where
  "identifiers st [] = []"
| "identifiers st (x # xs) =
     (case allocated st x of
        None \<Rightarrow> identifiers (fst (step st x)) xs
      | Some v \<Rightarrow> v # identifiers (fst (step st x)) xs)"

fun all_calls :: "sybase \<Rightarrow> op list \<Rightarrow> call list" where
  "all_calls st [] = []"
| "all_calls st (x # xs) = fst (snd (step st x)) @ all_calls (fst (step st x)) xs"

section \<open>Instances for concrete runs\<close>

text \<open>A new bridge; the same after a successful handshake; then with one callback-mode
  query pending, with one promise-mode query pending, and with one of each.\<close>

definition bridge0 :: sybase where
  "bridge0 = Sybase ''db.example'' ''5000'' ''sales'' ''user'' ''secret'' False
               ''JavaSybaseLink.jar'' ''utf8'' False"

definition connected0 :: sybase where
  "connected0 = run bridge0 [DoConnect (Fn 0), StdoutData ''connected'']"

definition pending0 :: sybase where
  "pending0 = run connected0 [DoQuery ''select 1'' (Fn 7) 5 (0, 7)]"

definition pendingSync0 :: sybase where
  "pendingSync0 = run connected0 [DoQuerySync ''select 1'' 3 5 (0, 7)]"

definition pendingMixed0 :: sybase where
  "pendingMixed0 =
     run connected0 [DoQuerySync ''select 1'' 3 5 (0, 7), DoQuery ''select 2'' (Fn 8) 6 (0, 9)]"

section \<open>Evaluating concrete runs\<close>

lemmas handshake_defs =
  connect_def connectAsync_def connectCore_def stdout_data_event_def stderr_data_event_def
  onHandshakeData_def onHandshakeError_def upd_process_def trim_def is_space_def

lemmas encoding_defs = known_encoding_def lower_char_def

lemmas submit_defs =
  query_def querySync_def prepareQuery_def isConnected_def js_incr_def stdin_write_def
  JSON_stringify_def replace_nl_def json_quote_def json_escape_def show_nat.simps
  digit_char_def tbl_set_def array_index_def digit_val_def

lemma connected0_eq:
  "connected0 = bridge0\<lparr> connected := True, jsonParser := [OnSQLResponse],
       javaDB := Some \<lparr> killed = False, stdin = [], stdout_data = [PipeToParser],
                        stderr_data = [OnSQLError] \<rparr> \<rparr>"
  by (simp add: connected0_def handshake_defs encoding_defs bridge0_def Sybase_def)

lemma connected0_fields:
  "connected connected0" "queryCount connected0 = 0"
  "currentMessages connected0 = ObjectTable [(''cat'', TNum 1)]"
  "jsonParser connected0 = [OnSQLResponse]"
  "javaDB connected0 = Some \<lparr> killed = False, stdin = [], stdout_data = [PipeToParser],
                        stderr_data = [OnSQLError] \<rparr>"
  by (simp_all add: connected0_eq bridge0_def Sybase_def)

lemma pending0_fields:
  "connected pending0" "queryCount pending0 = 1"
  "currentMessages pending0 =
     ObjectTable
       [(''1'', TMsg \<lparr> msgId = 1, sql = ''select 1'', sentTime = 5, callback = Fn 7,
                        hrstart = (0, 7) \<rparr>), (''cat'', TNum 1)]"
  "jsonParser pending0 = [OnSQLResponse]"
  "map_option stderr_data (javaDB pending0) = Some [OnSQLError]"
  by (simp_all add: pending0_def connected0_fields submit_defs)

lemma pendingSync0_fields:
  "connected pendingSync0" "queryCount pendingSync0 = 1"
  "currentMessages pendingSync0 =
     ObjectTable
       [(''1'', TMsg \<lparr> msgId = 1, sql = ''select 1'', sentTime = 5, callback = CbNull,
                        hrstart = (0, 7) \<rparr>), (''cat'', TNum 1)]"
  "jsonParser pendingSync0 = [OnSQLResponse, OnResponse 3]"
  by (simp_all add: pendingSync0_def connected0_fields submit_defs)

lemma pendingMixed0_fields:
  "currentMessages pendingMixed0 =
     ObjectTable
       [(''1'', TMsg \<lparr> msgId = 1, sql = ''select 1'', sentTime = 5, callback = CbNull,
                        hrstart = (0, 7) \<rparr>),
        (''2'', TMsg \<lparr> msgId = 2, sql = ''select 2'', sentTime = 6, callback = Fn 8,
                        hrstart = (0, 9) \<rparr>),
        (''cat'', TNum 1)]"
  "map_option stderr_data (javaDB pendingMixed0) = Some [OnSQLError]"
  by (simp_all add: pendingMixed0_def connected0_fields submit_defs)

lemmas dispatch_defs =
  jsonParser_data_def onSQLResponse_def onResponse_def onSQLError_def new_Error_def tbl_get_def
  tbl_delete_def object_prototype_def array_prototype_def remove_last_def show_nat.simps
  digit_char_def array_index_def digit_val_def

section \<open>Facts about the table\<close>

lemma tbl_insert_get: "map_of es k = None \<Longrightarrow> map_of (tbl_insert k v es) k = Some v"
  by (induction es) (auto split: option.splits if_splits)

lemma tbl_update_get:
  "map_of es k = Some w \<Longrightarrow> map_of (map (\<lambda>e. if fst e = k then (k, v) else e) es) k = Some v"
  by (induction es) (auto split: if_splits)

lemma tbl_get_set: "tbl_get (tbl_set k v t) k = Some v"
proof -
  have "map_of (if map_of es k = None then tbl_insert k v es
                else map (\<lambda>e. if fst e = k then (k, v) else e) es) k = Some v" for es
    by (cases "map_of es k") (simp_all add: tbl_insert_get tbl_update_get)
  then show ?thesis by (cases t) (simp_all add: tbl_get_def tbl_set_def)
qed

section \<open>Printing and decoding numerals\<close>

lemma digit_val_digit_char: "d < 10 \<Longrightarrow> digit_val (digit_char d) = Some d"
proof -
  assume "d < 10"
  then have "d \<in> {0, 1, 2, 3, 4, 5, 6, 7, 8, 9}" by auto
  then show ?thesis by (auto simp: digit_val_def digit_char_def)
qed

lemma digit_char_not_lf: "d < 10 \<Longrightarrow> digit_char d \<noteq> CHR 0x0A"
proof -
  assume "d < 10"
  then have "d \<in> {0, 1, 2, 3, 4, 5, 6, 7, 8, 9}" by auto
  then show ?thesis by (auto simp: digit_char_def)
qed

lemma digit_char_zero: "d < 10 \<Longrightarrow> (digit_char d = CHR ''0'') = (d = 0)"
proof -
  assume "d < 10"
  then have "d \<in> {0, 1, 2, 3, 4, 5, 6, 7, 8, 9}" by auto
  then show ?thesis by (auto simp: digit_char_def)
qed

lemma show_nat_not_lf: "CHR 0x0A \<notin> set (show_nat n)"
proof (induction n rule: show_nat.induct)
  case (1 n)
  show ?case
  proof (cases "n < 10")
    case True
    then show ?thesis using digit_char_not_lf [of n] by (auto simp: show_nat.simps [of n])
  next
    case False
    with 1 show ?thesis
      using digit_char_not_lf [of "n mod 10"] by (auto simp: show_nat.simps [of n])
  qed
qed

lemma parse_digits_show_nat:
  "parse_digits acc (show_nat n @ r) = parse_digits (acc * 10 ^ length (show_nat n) + n) r"
proof (induction n arbitrary: acc r rule: show_nat.induct)
  case (1 n)
  show ?case
  proof (cases "n < 10")
    case True
    then show ?thesis by (simp add: show_nat.simps [of n] digit_val_digit_char)
  next
    case False
    have "parse_digits acc (show_nat n @ r)
            = parse_digits acc (show_nat (n div 10) @ digit_char (n mod 10) # r)"
      using False by (simp add: show_nat.simps [of n])
    also have "\<dots> = parse_digits (acc * 10 ^ length (show_nat (n div 10)) + n div 10)
                        (digit_char (n mod 10) # r)"
      using 1 [OF False] by simp
    also have "\<dots> = parse_digits
                        ((acc * 10 ^ length (show_nat (n div 10)) + n div 10) * 10 + n mod 10) r"
      by (simp add: digit_val_digit_char)
    also have "(acc * 10 ^ length (show_nat (n div 10)) + n div 10) * 10 + n mod 10
                 = acc * 10 ^ length (show_nat n) + n"
      using False by (simp add: show_nat.simps [of n] algebra_simps)
    finally show ?thesis .
  qed
qed

lemma show_nat_cons: "\<exists>c cs. show_nat n = c # cs \<and> digit_val c \<noteq> None \<and> (c = CHR ''0'' \<longrightarrow> n = 0 \<and> cs = [])"
proof (induction n rule: show_nat.induct)
  case (1 n)
  show ?case
  proof (cases "n < 10")
    case True
    then show ?thesis
      by (simp add: show_nat.simps [of n] digit_val_digit_char digit_char_zero)
  next
    case False
    with 1 obtain c cs where
      h: "show_nat (n div 10) = c # cs" "digit_val c \<noteq> None"
         "c = CHR ''0'' \<longrightarrow> n div 10 = 0 \<and> cs = []"
      by blast
    from False have "n div 10 \<noteq> 0" by simp
    with h False show ?thesis by (simp add: show_nat.simps [of n])
  qed
qed

lemma parse_value_show_nat:
  assumes "digit_val d = None"
  shows "parse_value (Suc fuel) (show_nat n @ d # r) = Some (Num (int n), d # r)"
proof -
  obtain c cs where
    h: "show_nat n = c # cs" "digit_val c \<noteq> None" "c = CHR ''0'' \<longrightarrow> n = 0 \<and> cs = []"
    using show_nat_cons by blast
  have c: "c \<noteq> CHR 0x22" "c \<noteq> CHR ''[''" "c \<noteq> CHR ''{''"
    using h(2) by (auto simp: digit_val_def)
  have "parse_digits 0 (show_nat n @ d # r) = (n, d # r)"
    using assms by (simp add: parse_digits_show_nat)
  then have "parse_digits 0 (c # cs @ d # r) = (n, d # r)"
    using h(1) by simp
  with h c show ?thesis by auto
qed

section \<open>Quoting and decoding strings\<close>

lemma hex_val_hex_digit: "d < 16 \<Longrightarrow> hex_val (hex_digit d) = Some d"
proof -
  assume "d < 16"
  then have "d = 0 \<or> d = 1 \<or> d = 2 \<or> d = 3 \<or> d = 4 \<or> d = 5 \<or> d = 6 \<or> d = 7 \<or> d = 8
      \<or> d = 9 \<or> d = 10 \<or> d = 11 \<or> d = 12 \<or> d = 13 \<or> d = 14 \<or> d = 15" by arith
  then show ?thesis by (auto simp: hex_val_def hex_digit_def digit_val_def)
qed

lemma hex_digit_not_lf: "d < 16 \<Longrightarrow> hex_digit d \<noteq> CHR 0x0A"
proof -
  assume "d < 16"
  then have "d = 0 \<or> d = 1 \<or> d = 2 \<or> d = 3 \<or> d = 4 \<or> d = 5 \<or> d = 6 \<or> d = 7 \<or> d = 8
      \<or> d = 9 \<or> d = 10 \<or> d = 11 \<or> d = 12 \<or> d = 13 \<or> d = 14 \<or> d = 15" by arith
  then show ?thesis by (auto simp: hex_digit_def)
qed

lemma json_escape_not_lf: "CHR 0x0A \<notin> set (json_escape c)"
proof -
  have a: "hex_digit ((of_char c :: nat) div 16) \<noteq> CHR 0x0A" if "(of_char c :: nat) < 32"
    using that by (intro hex_digit_not_lf) simp
  have b: "hex_digit ((of_char c :: nat) mod 16) \<noteq> CHR 0x0A"
    by (intro hex_digit_not_lf) simp
  show ?thesis using a b by (auto simp: json_escape_def)
qed

lemma json_quote_not_lf: "CHR 0x0A \<notin> set (json_quote s)"
  by (induction s) (auto simp: json_quote_def json_escape_not_lf)

lemma hex4_escape:
  assumes "(of_char c :: nat) < 32"
  shows "hex4 (CHR ''0'') (CHR ''0'') (hex_digit ((of_char c :: nat) div 16))
           (hex_digit ((of_char c :: nat) mod 16)) = Some c"
proof -
  have z: "hex_val (CHR ''0'') = Some 0" by (simp add: hex_val_def digit_val_def)
  have "(of_char c :: nat) div 16 < 16" using assms by simp
  then have a: "hex_val (hex_digit ((of_char c :: nat) div 16)) = Some ((of_char c :: nat) div 16)"
    by (rule hex_val_hex_digit)
  have b: "hex_val (hex_digit ((of_char c :: nat) mod 16)) = Some ((of_char c :: nat) mod 16)"
    by (rule hex_val_hex_digit) simp
  have "(of_char c :: nat) div 16 * 16 + (of_char c :: nat) mod 16 = of_char c" by simp
  then show ?thesis using assms by (simp add: hex4_def z a b)
qed

lemma parse_chars_escape: "parse_chars (json_escape c @ r) = cons_fst c (parse_chars r)"
proof (cases "(of_char c :: nat) < 32")
  case True
  note h = hex4_escape [OF True]
  show ?thesis
    by (simp add: json_escape_def unescape_char_def h True)
next
  case False
  then show ?thesis by (simp add: json_escape_def unescape_char_def)
qed

lemma parse_chars_quoted:
  "parse_chars (concat (map json_escape s) @ CHR 0x22 # r) = Some (s, r)"
  by (induction s) (simp_all add: parse_chars_escape cons_fst_def)

lemma parse_value_json_quote:
  "parse_value (Suc fuel) (json_quote s @ r) = Some (Str s, r)"
  by (simp add: json_quote_def parse_chars_quoted)

section \<open>Decoding the line of a message\<close>

lemma case_show_nat:
  "(case show_nat n @ r of [] \<Rightarrow> a | d # ds \<Rightarrow> if d = CHR '']'' then g ds else c) = c"
proof -
  obtain x xs where h: "show_nat n = x # xs" "digit_val x \<noteq> None"
    using show_nat_cons by blast
  from h(2) have "x \<noteq> CHR '']''" by (auto simp: digit_val_def)
  with h(1) show ?thesis by simp
qed

lemma parse_value_stringify:
  "parse_value (Suc (Suc (Suc (Suc (Suc (Suc (Suc (Suc (Suc (Suc k))))))))))
     (JSON_stringify m) = Some (Obj (wire_members m), [])"
  by (cases "callback m")
     (simp_all add: JSON_stringify_def wire_members_def parse_value_show_nat
        parse_value_json_quote digit_val_def cons_fst_def case_show_nat)

lemma length_stringify: "10 \<le> length (JSON_stringify m)"
  by (simp add: JSON_stringify_def)

lemma JSON_parse_stringify: "JSON_parse (JSON_stringify m) = Some (Obj (wire_members m))"
proof -
  obtain k where "length (JSON_stringify m) = 10 + k"
    using length_stringify [of m] by (metis le_Suc_ex)
  then have "length (JSON_stringify m)
               = Suc (Suc (Suc (Suc (Suc (Suc (Suc (Suc (Suc (Suc k)))))))))"
    by simp
  then show ?thesis by (simp add: JSON_parse_def parse_value_stringify)
qed

lemma stringify_not_lf: "CHR 0x0A \<notin> set (JSON_stringify m)"
  by (cases "callback m")
     (simp_all add: JSON_stringify_def show_nat_not_lf json_quote_not_lf)

lemma replace_nl_id: "CHR 0x0A \<notin> set s \<Longrightarrow> replace_nl s = s"
  by (induction s) (auto simp: replace_nl_def)

lemma replace_nl_stringify: "replace_nl (JSON_stringify m) = JSON_stringify m"
  by (simp add: replace_nl_id stringify_not_lf)

lemma prepareQuery_connected:
  assumes "isConnected st"
  shows "prepareQuery st q c now hr
           = (st\<lparr> queryCount := js_incr (queryCount st),
                   currentMessages :=
                     tbl_set (show_nat (js_incr (queryCount st)))
                       (TMsg \<lparr> msgId = js_incr (queryCount st), sql = q, sentTime = now,
                               callback = c, hrstart = hr \<rparr>) (currentMessages st) \<rparr>,
              [],
              Some (JSON_stringify \<lparr> msgId = js_incr (queryCount st), sql = q, sentTime = now,
                                      callback = c, hrstart = hr \<rparr>))"
  using assms by (simp add: prepareQuery_def Let_def replace_nl_stringify)

lemma wire_fields_stringify: "wire_fields (JSON_stringify m) = Some (wire_members m)"
  by (simp add: wire_fields_def JSON_parse_stringify)

lemma wire_field_msgId: "wire_field (JSON_stringify m) ''msgId'' = Some (Num (int (msgId m)))"
  by (simp add: wire_field_def wire_fields_stringify wire_members_def)

lemma wire_field_sql: "wire_field (JSON_stringify m) ''sql'' = Some (Str (sql m))"
  by (simp add: wire_field_def wire_fields_stringify wire_members_def)

lemma prepareQuery_not_connected:
  assumes "\<not> isConnected st"
  shows "prepareQuery st q c now hr
           = (st,
              (case c of
                 Fn f \<Rightarrow> [Callback f (Some (Error ''Database isn't connected.'')) Undefined]
               | _ \<Rightarrow> []),
              None)"
  using assms by (simp add: prepareQuery_def)

lemma allocated_not_connected:
  assumes "\<not> isConnected st"
  shows "allocated st x = None"
  using assms by (cases x) (simp_all add: prepareQuery_not_connected)

lemma allocated_cases:
  "allocated st x = None \<or> allocated st x = Some (Num (int (js_incr (queryCount st))))"
proof (cases "isConnected st")
  case True
  then show ?thesis by (cases x) (simp_all add: prepareQuery_connected wire_field_msgId)
next
  case False
  then show ?thesis by (simp add: allocated_not_connected)
qed

section \<open>Submitting while not connected\<close>

text \<open>
  C7. A submission made while \<^verbatim>\<open>isConnected()\<close> is false hands a not-connected error to the
  caller through the channel of its mode (the callback of \<^verbatim>\<open>query\<close>, the rejection of the
  promise of \<^verbatim>\<open>querySync\<close>) and does nothing else: the state afterwards is the state
  before, so no identifier is allocated, no entry enters the table and nothing is written
  to the worker.
\<close>

theorem not_connected_submission:
  assumes "\<not> isConnected st"
  shows "query st q (Fn f) now hr
           = (st, [Callback f (Some (Error ''Database isn't connected.'')) Undefined], None)
       \<and> querySync st q p now hr
           = (st, [Reject p (Error ''Database isn't connected.'')], None)
       \<and> fst (query st q c now hr) = st
       \<and> allocated st (DoQuery q c now hr) = None
       \<and> allocated st (DoQuerySync q p now hr) = None"
  using assms by (simp add: query_def querySync_def prepareQuery_def)

theorem not_connected_submission_witness:
  "\<not> isConnected bridge0
   \<and> query bridge0 ''select 1'' (Fn 7) 5 (0, 7)
       = (bridge0, [Callback 7 (Some (Error ''Database isn't connected.'')) Undefined], None)
   \<and> querySync bridge0 ''select 1'' 3 5 (0, 7)
       = (bridge0, [Reject 3 (Error ''Database isn't connected.'')], None)"
  using not_connected_submission [of bridge0 "''select 1''" 7 5 "(0, 7)" 3 "Fn 7"]
  by (simp add: bridge0_def Sybase_def isConnected_def)

section \<open>The wire line of a query\<close>

lemma query_line_members:
  assumes "isConnected st" and "javaDB st = Some p"
  shows "\<exists>st' line.
           query st q c now hr = (st', [], None)
         \<and> map_option stdin (javaDB st') = Some (stdin p @ [line @ [CHR 0x0A]])
         \<and> CHR 0x0A \<notin> set line
         \<and> wire_fields line
             = Some ([(''msgId'', Num (int (js_incr (queryCount st)))), (''sql'', Str q),
                      (''sentTime'', Num (int now))]
                     @ (if c = CbNull then [(''callback'', Null)] else [])
                     @ [(''hrstart'', Arr [Num (int (fst hr)), Num (int (snd hr))])])"
proof -
  let ?m = "\<lparr> msgId = js_incr (queryCount st), sql = q, sentTime = now, callback = c,
                hrstart = hr \<rparr>"
  have "wire_members ?m
          = [(''msgId'', Num (int (js_incr (queryCount st)))), (''sql'', Str q),
             (''sentTime'', Num (int now))]
            @ (if c = CbNull then [(''callback'', Null)] else [])
            @ [(''hrstart'', Arr [Num (int (fst hr)), Num (int (snd hr))])]"
    by (cases c) (simp_all add: wire_members_def)
  then have f: "wire_fields (JSON_stringify ?m)
          = Some ([(''msgId'', Num (int (js_incr (queryCount st)))), (''sql'', Str q),
             (''sentTime'', Num (int now))]
            @ (if c = CbNull then [(''callback'', Null)] else [])
            @ [(''hrstart'', Arr [Num (int (fst hr)), Num (int (snd hr))])])"
    by (simp only: wire_fields_stringify)
  have "\<exists>st'. query st q c now hr = (st', [], None)
          \<and> map_option stdin (javaDB st') = Some (stdin p @ [JSON_stringify ?m @ [CHR 0x0A]])"
    using assms by (simp add: query_def prepareQuery_connected stdin_write_def)
  with f stringify_not_lf [of ?m] show ?thesis by blast
qed

text \<open>
  C4. The claim asks that the line of a query carry the members \<^verbatim>\<open>msgId\<close>, \<^verbatim>\<open>sql\<close> and
  \<^verbatim>\<open>sentTime\<close> and no other. \<^verbatim>\<open>prepareQuery\<close> serialises the very object it stores in the
  table, with the two properties kept there for the dispatch of the response. Evaluated on
  a new connection: the line of the first \<^verbatim>\<open>query\<close> is one JSON object followed by one line
  feed, but it has \<^verbatim>\<open>hrstart\<close> as a fourth member; and the line of a first \<^verbatim>\<open>querySync\<close>
  has \<^verbatim>\<open>callback\<close> with the value \<^verbatim>\<open>null\<close> and \<^verbatim>\<open>hrstart\<close> as fourth and fifth members.
\<close>

theorem query_wire_line_extra_members:
  \<open>map_option stdin (javaDB pending0)
     = Some [''{"msgId":1,"sql":"select 1","sentTime":5,"hrstart":[0,7]}'' @ [CHR 0x0A]]
   \<and> wire_fields ''{"msgId":1,"sql":"select 1","sentTime":5,"hrstart":[0,7]}''
       = Some [(''msgId'', Num 1), (''sql'', Str ''select 1''), (''sentTime'', Num 5),
               (''hrstart'', Arr [Num 0, Num 7])]
   \<and> map_option stdin (javaDB pendingSync0)
       = Some [''{"msgId":1,"sql":"select 1","sentTime":5,"callback":null,"hrstart":[0,7]}''
               @ [CHR 0x0A]]
   \<and> wire_fields
         ''{"msgId":1,"sql":"select 1","sentTime":5,"callback":null,"hrstart":[0,7]}''
       = Some [(''msgId'', Num 1), (''sql'', Str ''select 1''), (''sentTime'', Num 5),
               (''callback'', Null), (''hrstart'', Arr [Num 0, Num 7])]\<close>
proof -
  let ?m = "\<lparr> msgId = 1, sql = ''select 1'', sentTime = 5, callback = Fn 7, hrstart = (0, 7) \<rparr>"
  let ?n = "\<lparr> msgId = 1, sql = ''select 1'', sentTime = 5, callback = CbNull, hrstart = (0, 7) \<rparr>"
  have l: \<open>JSON_stringify ?m = ''{"msgId":1,"sql":"select 1","sentTime":5,"hrstart":[0,7]}''\<close>
    by (simp add: JSON_stringify_def json_quote_def json_escape_def show_nat.simps digit_char_def)
  have k: \<open>JSON_stringify ?n
             = ''{"msgId":1,"sql":"select 1","sentTime":5,"callback":null,"hrstart":[0,7]}''\<close>
    by (simp add: JSON_stringify_def json_quote_def json_escape_def show_nat.simps digit_char_def)
  have a: "map_option stdin (javaDB pending0) = Some [JSON_stringify ?m @ [CHR 0x0A]]"
    by (simp add: pending0_def query_def prepareQuery_connected isConnected_def
          connected0_fields stdin_write_def js_incr_def)
  have b: "wire_fields (JSON_stringify ?m)
       = Some [(''msgId'', Num 1), (''sql'', Str ''select 1''), (''sentTime'', Num 5),
               (''hrstart'', Arr [Num 0, Num 7])]"
    by (simp add: wire_fields_stringify wire_members_def)
  have c: "map_option stdin (javaDB pendingSync0) = Some [JSON_stringify ?n @ [CHR 0x0A]]"
    by (simp add: pendingSync0_def querySync_def prepareQuery_connected isConnected_def
          connected0_fields stdin_write_def js_incr_def)
  have d: "wire_fields (JSON_stringify ?n)
       = Some [(''msgId'', Num 1), (''sql'', Str ''select 1''), (''sentTime'', Num 5),
               (''callback'', Null), (''hrstart'', Arr [Num 0, Num 7])]"
    by (simp add: wire_fields_stringify wire_members_def)
  from a b c d show ?thesis by (simp only: l k)
qed

text \<open>
  C8. Round trip of the query text. For every query text, line feeds included, the line
  \<^verbatim>\<open>prepareQuery\<close> returns while connected has no raw line feed, its member \<^verbatim>\<open>sql\<close>
  decodes to the query text itself, and \<^verbatim>\<open>query\<close> writes that line followed by one line
  feed. (\<^verbatim>\<open>JSON.stringify\<close> has already escaped every line feed, so the \<^verbatim>\<open>replace\<close> finds
  none.)
\<close>

theorem sql_round_trip:
  assumes "isConnected st"
  shows "\<exists>st' line.
           prepareQuery st q c now hr = (st', [], Some line)
         \<and> CHR 0x0A \<notin> set line
         \<and> wire_field line ''sql'' = Some (Str q)
         \<and> (\<forall>p. javaDB st = Some p
               \<longrightarrow> map_option stdin (javaDB (fst (query st q c now hr)))
                     = Some (stdin p @ [line @ [CHR 0x0A]]))"
proof -
  let ?m = "\<lparr> msgId = js_incr (queryCount st), sql = q, sentTime = now, callback = c,
                hrstart = hr \<rparr>"
  have "map_option stdin (javaDB (fst (query st q c now hr)))
          = Some (stdin p @ [JSON_stringify ?m @ [CHR 0x0A]])" if "javaDB st = Some p" for p
    using assms that by (simp add: query_def prepareQuery_connected stdin_write_def)
  with prepareQuery_connected [OF assms, of q c now hr] stringify_not_lf [of ?m]
    wire_field_sql [of ?m]
  show ?thesis by auto
qed

theorem sql_round_trip_witness:
  \<open>isConnected connected0
   \<and> fst (snd (prepareQuery connected0 (''select 1'' @ [CHR 0x0A] @ ''from t'') (Fn 7) 5 (0, 7))) = []
   \<and> snd (snd (prepareQuery connected0 (''select 1'' @ [CHR 0x0A] @ ''from t'') (Fn 7) 5 (0, 7)))
       = Some (''{"msgId":1,"sql":"select 1'' @ [CHR 0x5C, CHR ''n'']
               @ ''from t","sentTime":5,"hrstart":[0,7]}'')
   \<and> wire_field (''{"msgId":1,"sql":"select 1'' @ [CHR 0x5C, CHR ''n'']
               @ ''from t","sentTime":5,"hrstart":[0,7]}'') ''sql''
       = Some (Str (''select 1'' @ [CHR 0x0A] @ ''from t''))\<close>
proof -
  have c: "isConnected connected0" by (simp add: isConnected_def connected0_fields)
  have l: \<open>snd (snd (prepareQuery connected0 (''select 1'' @ [CHR 0x0A] @ ''from t'') (Fn 7) 5 (0, 7)))
       = Some (''{"msgId":1,"sql":"select 1'' @ [CHR 0x5C, CHR ''n'']
               @ ''from t","sentTime":5,"hrstart":[0,7]}'')\<close>
    by (simp add: prepareQuery_def c connected0_fields js_incr_def JSON_stringify_def
          replace_nl_def json_quote_def json_escape_def show_nat.simps digit_char_def)
  from sql_round_trip [OF c, of "''select 1'' @ [CHR 0x0A] @ ''from t''" "Fn 7" 5 "(0, 7)"]
  obtain st' line where
    "prepareQuery connected0 (''select 1'' @ [CHR 0x0A] @ ''from t'') (Fn 7) 5 (0, 7)
       = (st', [], Some line)"
    "wire_field line ''sql'' = Some (Str (''select 1'' @ [CHR 0x0A] @ ''from t''))"
    by blast
  with c l show ?thesis by simp
qed

section \<open>Response dispatch\<close>

lemma onSQLResponse_unknown_raises:
  assumes "get_prop jsonMsg ''msgId'' = Inr mid"
    and "\<And>key. js_to_string mid = Inr key
           \<Longrightarrow> map_of (entries (currentMessages st)) key = None"
  shows "\<exists>st' e. onSQLResponse st jsonMsg = (st', [], Some e)"
  using assms
  by (auto simp: onSQLResponse_def Let_def tbl_get_def split: sum.splits option.splits)

text \<open>
  C1. The claim asks that a message whose \<^verbatim>\<open>msgId\<close> matches no pending entry, or that lacks
  \<^verbatim>\<open>result\<close>, be tolerated without an exception. \<^verbatim>\<open>onSQLResponse\<close> reads
  \<^verbatim>\<open>request.hrstart\<close> and \<^verbatim>\<open>result.length\<close> unguarded, and a message for which the table
  has no entry of its own always makes it raise (\<open>onSQLResponse_unknown_raises\<close>).
  Evaluated on the connected bridge: a
  message for identifier 99, never submitted, raises a \<^verbatim>\<open>TypeError\<close> (no continuation is
  invoked and the state is unchanged); and a message for the pending identifier 1 that has
  no \<^verbatim>\<open>result\<close> raises a \<^verbatim>\<open>TypeError\<close> after the entry has been deleted, its continuation
  never invoked.
\<close>

theorem unknown_msgId_raises:
  "jsonParser_data connected0 (Obj [(''msgId'', Num 99), (''result'', Arr [Obj [(''n'', Num 1)]])])
     = (connected0, [], Some (TypeError ReadOfNullish))
   \<and> snd (jsonParser_data pending0 (Obj [(''msgId'', Num 1)]))
       = ([], Some (TypeError ReadOfNullish))
   \<and> currentMessages (fst (jsonParser_data pending0 (Obj [(''msgId'', Num 1)])))
       = ObjectTable [(''cat'', TNum 1)]"
  by (simp add: dispatch_defs connected0_fields pending0_fields)

lemma onSQLResponse_single:
  assumes "tbl_get (currentMessages st) (show_nat n) = Some (TMsg m)" and "callback m = Fn f"
  shows "onSQLResponse st (Obj [(''msgId'', Num (int n)), (''result'', Arr [x])])
           = (st\<lparr> currentMessages := tbl_delete (show_nat n) (currentMessages st) \<rparr>,
              [Callback f None x], None)"
  using assms by (simp add: onSQLResponse_def array_index_def digit_val_def)

lemma onSQLResponse_many:
  assumes "tbl_get (currentMessages st) (show_nat n) = Some (TMsg m)" and "callback m = Fn f"
    and "2 \<le> length xs"
  shows "onSQLResponse st (Obj [(''msgId'', Num (int n)), (''result'', Arr xs)])
           = (st\<lparr> currentMessages := tbl_delete (show_nat n) (currentMessages st) \<rparr>,
              [Callback f None (Arr xs)], None)"
  using assms by (simp add: onSQLResponse_def)

text \<open>
  C5. In callback mode a result of length one is unwrapped and a longer one is passed on as
  it is (\<open>onSQLResponse_single\<close>, \<open>onSQLResponse_many\<close>). In promise mode it is not so. With
  one \<^verbatim>\<open>querySync\<close> pending, the response carrying a result of length one makes the shared
  dispatch raise a \<^verbatim>\<open>TypeError\<close> on the stored \<^verbatim>\<open>null\<close> continuation, which ends the
  delivery before the listener of \<^verbatim>\<open>querySync\<close> is reached, so the promise is not
  settled; and that listener, run on its own, resolves the promise with the sequence of
  length one, not with its element.
\<close>

theorem querySync_result_not_unwrapped:
  "snd (jsonParser_data pendingSync0
          (Obj [(''msgId'', Num 1), (''result'', Arr [Obj [(''n'', Num 1)]])]))
     = ([], Some (TypeError NotAFunction))
   \<and> snd (onResponse pendingSync0 3
            (Obj [(''msgId'', Num 1), (''result'', Arr [Obj [(''n'', Num 1)]])]))
       = ([Resolve 3 (Arr [Obj [(''n'', Num 1)]])], None)"
  by (simp add: dispatch_defs pendingSync0_fields)

lemma querySync_state:
  assumes "isConnected st"
  shows "currentMessages (fst (querySync st q p now hr))
           = tbl_set (show_nat (js_incr (queryCount st)))
               (TMsg \<lparr> msgId = js_incr (queryCount st), sql = q, sentTime = now,
                       callback = CbNull, hrstart = hr \<rparr>) (currentMessages st)"
    and "jsonParser (fst (querySync st q p now hr)) = jsonParser st @ [OnResponse p]"
    and "queryCount (fst (querySync st q p now hr)) = js_incr (queryCount st)"
  using assms
  by (simp_all add: querySync_def prepareQuery_def stdin_write_def Let_def split: option.splits)

lemma onSQLResponse_null_callback:
  assumes "get_prop jsonMsg ''msgId'' = Inr mid"
    and "js_to_string mid = Inr key"
    and "tbl_get (currentMessages st) key = Some (TMsg m)"
    and "callback m = CbNull"
  shows "\<exists>st' e. onSQLResponse st jsonMsg = (st', [], Some e)"
  using assms by (auto simp: onSQLResponse_def Let_def split: sum.splits)

text \<open>
  C9. After a \<^verbatim>\<open>querySync\<close> made while connected, the table holds the message under its
  identifier with \<^verbatim>\<open>null\<close> as continuation, and the listener of \<^verbatim>\<open>querySync\<close> stands last
  on the shared parser. Every message whose \<^verbatim>\<open>msgId\<close> converts to that identifier makes
  \<^verbatim>\<open>onSQLResponse\<close> raise, no continuation invoked; where \<^verbatim>\<open>onSQLResponse\<close> is the first
  listener of the parser, as after the first handshake, the delivery of the message ends
  with that exception. For a message with an array as \<^verbatim>\<open>result\<close> and no \<^verbatim>\<open>error\<close> the
  exception is the \<^verbatim>\<open>TypeError\<close> of calling the stored \<^verbatim>\<open>null\<close>.
\<close>

theorem querySync_shared_dispatch_raises:
  assumes "isConnected st"
  shows "tbl_get (currentMessages (fst (querySync st q p now hr)))
             (show_nat (js_incr (queryCount st)))
           = Some (TMsg \<lparr> msgId = js_incr (queryCount st), sql = q, sentTime = now,
                           callback = CbNull, hrstart = hr \<rparr>)
       \<and> jsonParser (fst (querySync st q p now hr)) = jsonParser st @ [OnResponse p]
       \<and> (\<forall>jsonMsg mid.
             get_prop jsonMsg ''msgId'' = Inr mid
             \<and> js_to_string mid = Inr (show_nat (js_incr (queryCount st)))
             \<longrightarrow> (\<exists>st' e. onSQLResponse (fst (querySync st q p now hr)) jsonMsg
                            = (st', [], Some e)
                          \<and> (\<forall>ls. jsonParser st = OnSQLResponse # ls
                                \<longrightarrow> jsonParser_data (fst (querySync st q p now hr)) jsonMsg
                                      = (st', [], Some e))))
       \<and> (\<forall>xs. snd (onSQLResponse (fst (querySync st q p now hr))
                      (Obj [(''msgId'', Num (int (js_incr (queryCount st)))),
                            (''result'', Arr xs)]))
                 = ([], Some (TypeError NotAFunction)))"
proof -
  let ?st' = "fst (querySync st q p now hr)"
  let ?n = "js_incr (queryCount st)"
  let ?m = "\<lparr> msgId = ?n, sql = q, sentTime = now, callback = CbNull, hrstart = hr \<rparr>"
  have entry: "tbl_get (currentMessages ?st') (show_nat ?n) = Some (TMsg ?m)"
    by (simp add: querySync_state(1) [OF assms] tbl_get_set)
  have listeners: "jsonParser ?st' = jsonParser st @ [OnResponse p]"
    by (rule querySync_state(2) [OF assms])
  have every: "\<exists>st' e. onSQLResponse ?st' jsonMsg = (st', [], Some e)
                 \<and> (\<forall>ls. jsonParser st = OnSQLResponse # ls
                        \<longrightarrow> jsonParser_data ?st' jsonMsg = (st', [], Some e))"
    if "get_prop jsonMsg ''msgId'' = Inr mid" and "js_to_string mid = Inr (show_nat ?n)"
    for jsonMsg mid
  proof -
    from onSQLResponse_null_callback [OF that(1) that(2) entry]
    obtain st' e where r: "onSQLResponse ?st' jsonMsg = (st', [], Some e)" by auto
    then have "jsonParser_data ?st' jsonMsg = (st', [], Some e)"
      if "jsonParser st = OnSQLResponse # ls" for ls
      using that listeners by (simp add: jsonParser_data_def)
    with r show ?thesis by blast
  qed
  have arrays: "snd (onSQLResponse ?st'
                      (Obj [(''msgId'', Num (int ?n)), (''result'', Arr xs)]))
                 = ([], Some (TypeError NotAFunction))" for xs
    using entry by (simp add: onSQLResponse_def Let_def)
  from entry listeners every arrays show ?thesis by blast
qed

theorem querySync_shared_dispatch_raises_witness:
  "isConnected connected0
   \<and> jsonParser (fst (querySync connected0 ''select 1'' 3 5 (0, 7)))
       = [OnSQLResponse, OnResponse 3]
   \<and> snd (onSQLResponse (fst (querySync connected0 ''select 1'' 3 5 (0, 7)))
            (Obj [(''msgId'', Num 1), (''result'', Arr [Num 4])]))
       = ([], Some (TypeError NotAFunction))"
  using querySync_shared_dispatch_raises [of connected0 "''select 1''" 3 5 "(0, 7)"]
  by (simp add: isConnected_def connected0_fields js_incr_def)

section \<open>Channel faults\<close>

lemma forEach_cb_functions:
  "forEach_cb (map Fn fs) err = (map (\<lambda>f. Callback f (Some err) Undefined) fs, None)"
  by (induction fs) auto

lemma forEach_cb_raises:
  assumes "c \<in> set cs" and "\<forall>f. c \<noteq> Fn f"
  shows "\<exists>calls e. forEach_cb cs err = (calls, Some e)"
  using assms
proof (induction cs)
  case Nil
  then show ?case by simp
next
  case (Cons a cs)
  show ?case
  proof (cases a)
    case (Fn f)
    with Cons obtain calls e where "forEach_cb cs err = (calls, Some e)" by auto
    with Fn show ?thesis by simp
  qed simp_all
qed

lemma onSQLError_pending_functions:
  assumes "map (\<lambda>e. callback_of (snd e)) (entries (currentMessages st)) = map Fn fs"
  shows "onSQLError st d
           = (st\<lparr> currentMessages := ArrayTable [] \<rparr>, map (\<lambda>f. Callback f (Some (Error d)) Undefined) fs, None)"
  using assms by (simp add: onSQLError_def forEach_cb_functions)

lemma onSQLError_initial_entry_raises:
  assumes "(''cat'', TNum 1) \<in> set (entries (currentMessages st))"
  shows "\<exists>calls e. onSQLError st d = (st\<lparr> currentMessages := ArrayTable [] \<rparr>, calls, Some e)"
proof -
  from assms
  have "CbUndefined \<in> set (map (\<lambda>e. callback_of (snd e)) (entries (currentMessages st)))"
    by force
  from forEach_cb_raises [OF this, of "Error d"]
  obtain calls e where
    "forEach_cb (map (\<lambda>e. callback_of (snd e)) (entries (currentMessages st))) (Error d)
       = (calls, Some e)"
    by auto
  then show ?thesis by (simp add: onSQLError_def)
qed

text \<open>
  C2. The claim asks that a channel fault with K requests pending invoke each of the K
  continuations once with the failure, raise nothing, and leave the table empty. The table
  is emptied, and where every entry holds a function that is what happens
  (\<open>onSQLError_pending_functions\<close>). But the table starts as \<^verbatim>\<open>{ cat: 1 }\<close>, and
  \<^verbatim>\<open>querySync\<close> stores \<^verbatim>\<open>null\<close>: with one query pending on a new connection the
  continuation is invoked and then a \<^verbatim>\<open>TypeError\<close> is raised on the \<^verbatim>\<open>callback\<close> of
  \<^verbatim>\<open>cat\<close>; with none pending the \<^verbatim>\<open>TypeError\<close> is raised all the same; and with a
  \<^verbatim>\<open>querySync\<close> pending before a \<^verbatim>\<open>query\<close>, the \<^verbatim>\<open>TypeError\<close> on the \<^verbatim>\<open>null\<close> ends the loop
  before the continuation of the \<^verbatim>\<open>query\<close> is invoked.
\<close>

theorem channel_fault_raises:
  "snd (stderr_data_event pending0 ''fault'')
     = ([Callback 7 (Some (Error ''fault'')) Undefined], Some (TypeError NotAFunction))
   \<and> currentMessages (fst (stderr_data_event pending0 ''fault'')) = ArrayTable []
   \<and> snd (stderr_data_event connected0 ''fault'') = ([], Some (TypeError NotAFunction))
   \<and> snd (stderr_data_event pendingMixed0 ''fault'') = ([], Some (TypeError NotAFunction))"
proof -
  obtain p where p: "javaDB pending0 = Some p" "stderr_data p = [OnSQLError]"
    using pending0_fields(5) by (cases "javaDB pending0") auto
  obtain p' where p': "javaDB pendingMixed0 = Some p'" "stderr_data p' = [OnSQLError]"
    using pendingMixed0_fields(2) by (cases "javaDB pendingMixed0") auto
  show ?thesis
    by (simp add: stderr_data_event_def p p' onSQLError_def pending0_fields connected0_fields
          pendingMixed0_fields)
qed

section \<open>The handshake\<close>

lemma handshake_connected:
  assumes "trim d = ''connected''" and "known_encoding (encoding st)"
  shows "stdout_data_event (connect st (Fn f)) d
          = (st\<lparr> connected := True, jsonParser := jsonParser st @ [OnSQLResponse],
                  javaDB := Some \<lparr> killed = False, stdin = [], stdout_data = [PipeToParser],
                                   stderr_data = [OnSQLError] \<rparr> \<rparr>,
             [Callback f None (Str ''connected'')], None)"
  using assms by (simp add: handshake_defs)

lemma handshake_other_text:
  assumes "trim d \<noteq> ''connected''"
  shows "stdout_data_event (connect st (Fn f)) d
          = (st\<lparr> javaDB := Some \<lparr> killed = False, stdin = [], stdout_data = [],
                                   stderr_data = [HandshakeErr (ConnCb (Fn f))] \<rparr> \<rparr>,
             [Callback f (Some (Error (''Error connecting '' @ trim d))) Null], None)"
  using assms by (simp add: handshake_defs)

lemma handshake_error_first:
  "stderr_data_event (connect st (Fn f)) d
     = (st\<lparr> javaDB := Some \<lparr> killed = True, stdin = [], stdout_data = [],
                              stderr_data = [] \<rparr> \<rparr>,
        [Callback f (Some (Error d)) Null], None)"
  by (simp add: handshake_defs)

text \<open>
  C3. A first output chunk that trims to \<^verbatim>\<open>connected\<close> makes the connect callback succeed
  with that text and \<^verbatim>\<open>isConnected()\<close> true, the handshake listener of the error stream
  detached (\<open>handshake_connected\<close>, for an encoding the stream accepts); error data first detaches the listener of the output
  (\<open>handshake_error_first\<close>). Any other first chunk fails the callback with an error
  holding the text, but that branch returns without detaching the handshake listener of the
  error stream (\<open>handshake_other_text\<close>): after the chunk \<^verbatim>\<open>boom\<close> it is still attached,
  and error data arriving next invokes the connect callback a second time.
\<close>

theorem handshake_callback_twice:
  "all_calls bridge0 [DoConnect (Fn 0), StdoutData ''boom'', StderrData ''worker died'']
     = [Callback 0 (Some (Error ''Error connecting boom'')) Null,
        Callback 0 (Some (Error ''worker died'')) Null]
   \<and> map_option stderr_data (javaDB (run bridge0 [DoConnect (Fn 0), StdoutData ''boom'']))
       = Some [HandshakeErr (ConnCb (Fn 0))]"
  by (simp add: handshake_defs)

section \<open>Identifier allocation\<close>

lemma allocated_connected:
  assumes "isConnected st"
  shows "allocated st (DoQuery q c now hr) = Some (Num (int (js_incr (queryCount st))))"
    and "allocated st (DoQuerySync q p now hr) = Some (Num (int (js_incr (queryCount st))))"
  using assms by (simp_all add: prepareQuery_connected wire_field_msgId)

lemma emit_queryCount:
  assumes "\<And>l st. queryCount (fst (handler l d st)) = queryCount st"
  shows "queryCount (fst (emit handler ls d st)) = queryCount st"
proof (induction ls arbitrary: st)
  case Nil
  then show ?case by simp
next
  case (Cons l ls)
  obtain st1 calls e where h: "handler l d st = (st1, calls, e)" by (cases "handler l d st") auto
  with assms [of l st] have q: "queryCount st1 = queryCount st" by simp
  show ?case
  proof (cases e)
    case None
    obtain st2 calls2 e2 where "emit handler ls d st1 = (st2, calls2, e2)"
      by (cases "emit handler ls d st1") auto
    with Cons [of st1] h None q show ?thesis by simp
  next
    case (Some x)
    with h q show ?thesis by simp
  qed
qed

lemma run_stdout_queryCount: "queryCount (fst (run_stdout l d st)) = queryCount st"
  by (cases l) (simp_all add: onHandshakeData_def upd_process_def Let_def split: prod.splits)

lemma run_stderr_queryCount: "queryCount (fst (run_stderr l d st)) = queryCount st"
  by (cases l)
     (simp_all add: onHandshakeError_def onSQLError_def upd_process_def Let_def split: prod.splits)

lemma run_parser_queryCount: "queryCount (fst (run_parser l d st)) = queryCount st"
  by (cases l)
     (simp_all add: onSQLResponse_def onResponse_def Let_def
        split: prod.splits sum.splits option.splits)

lemma step_queryCount:
  "queryCount (fst (step st x))
     = (if allocated st x = None then queryCount st else js_incr (queryCount st))"
proof (cases x)
  case (DoQuery q c now hr)
  then show ?thesis
    by (cases "isConnected st")
       (simp_all add: query_def prepareQuery_connected wire_field_msgId stdin_write_def
          prepareQuery_not_connected split: option.splits)
next
  case (DoQuerySync q p now hr)
  then show ?thesis
    by (cases "isConnected st")
       (simp_all add: querySync_def prepareQuery_connected wire_field_msgId stdin_write_def
          prepareQuery_not_connected Let_def split: option.splits)
next
  case DoDisconnect
  then show ?thesis by (simp add: disconnect_def split: option.splits)
next
  case (StdoutData d)
  then show ?thesis
    by (simp add: stdout_data_event_def emit_queryCount run_stdout_queryCount split: option.splits)
next
  case (StderrData d)
  then show ?thesis
    by (simp add: stderr_data_event_def emit_queryCount run_stderr_queryCount split: option.splits)
next
  case (ParserData jsonMsg)
  then show ?thesis by (simp add: jsonParser_data_def emit_queryCount run_parser_queryCount)
qed (simp_all add: connect_def connectAsync_def connectCore_def)

lemma js_incr_iter:
  "js_incr (max c (min (c + k) (2 ^ 53))) = max c (min (c + Suc k) (2 ^ 53))"
  by (simp add: js_incr_def max_def min_def)

lemma identifiers_nth:
  assumes "i < length (identifiers st ops)"
  shows "identifiers st ops ! i
           = Num (int (max (queryCount st) (min (queryCount st + Suc i) (2 ^ 53))))"
  using assms
proof (induction ops arbitrary: st i)
  case Nil
  then show ?case by simp
next
  case (Cons x ops)
  let ?st1 = "fst (step st x)"
  show ?case
  proof (cases "allocated st x")
    case None
    then have "queryCount ?st1 = queryCount st" by (simp add: step_queryCount)
    with Cons None show ?thesis by simp
  next
    case (Some v)
    with allocated_cases [of st x] have v: "v = Num (int (js_incr (queryCount st)))" by simp
    from Some have q: "queryCount ?st1 = js_incr (queryCount st)" by (simp add: step_queryCount)
    show ?thesis
    proof (cases i)
      case 0
      with Some v show ?thesis by (simp add: js_incr_def max_def min_def)
    next
      case (Suc j)
      with Cons.prems Some have "j < length (identifiers ?st1 ops)" by simp
      from Cons.IH [OF this] q
      have "identifiers ?st1 ops ! j
              = Num (int (max (js_incr (queryCount st))
                            (min (js_incr (queryCount st) + Suc j) (2 ^ 53))))"
        by simp
      also have "max (js_incr (queryCount st)) (min (js_incr (queryCount st) + Suc j) (2 ^ 53))
                   = max (queryCount st) (min (queryCount st + Suc (Suc j)) (2 ^ 53))"
        by (simp add: js_incr_def max_def min_def)
      finally show ?thesis using Some Suc by simp
    qed
  qed
qed

text \<open>
  C6. Through any run of operations and worker events on a new bridge, the identifiers put
  on the wire by the successful submissions are exactly 1, 2, 3, ... in submission order:
  starting at 1, strictly increasing, none repeated. An operation on a bridge that is not
  connected, a rejected submission among them, allocates no identifier and leaves the
  counter as it is. The counter is a JavaScript number, exact up to \<open>2^53\<close>; the
  hypothesis keeps the run within that many allocations, more than a connection lives to
  make.
\<close>

theorem identifiers_sequential:
  assumes "length (identifiers (Sybase h p d u pw lt path enc lg) ops) \<le> 2 ^ 53"
  shows "identifiers (Sybase h p d u pw lt path enc lg) ops
           = map (\<lambda>i. Num (int i))
               [1 ..< Suc (length (identifiers (Sybase h p d u pw lt path enc lg) ops))]
       \<and> (\<forall>st x. \<not> isConnected st
              \<longrightarrow> allocated st x = None \<and> queryCount (fst (step st x)) = queryCount st)"
proof -
  let ?ids = "identifiers (Sybase h p d u pw lt path enc lg) ops"
  have q0: "queryCount (Sybase h p d u pw lt path enc lg) = 0" by (simp add: Sybase_def)
  have "?ids = map (\<lambda>i. Num (int i)) [1 ..< Suc (length ?ids)]"
  proof (rule nth_equalityI)
    show "length ?ids = length (map (\<lambda>i. Num (int i)) [1 ..< Suc (length ?ids)])"
      by (simp del: upt_Suc)
  next
    fix i assume i: "i < length ?ids"
    with assms have "Suc i \<le> 2 ^ 53" by simp
    with identifiers_nth [OF i] q0 have "?ids ! i = Num (int (Suc i))" by (simp add: min_def)
    moreover from i have "map (\<lambda>i. Num (int i)) [1 ..< Suc (length ?ids)] ! i = Num (int (Suc i))"
      by (simp del: upt_Suc)
    ultimately show "?ids ! i = map (\<lambda>i. Num (int i)) [1 ..< Suc (length ?ids)] ! i" by simp
  qed
  moreover have "allocated st x = None \<and> queryCount (fst (step st x)) = queryCount st"
    if "\<not> isConnected st" for st x
    using that by (simp add: allocated_not_connected step_queryCount)
  ultimately show ?thesis by blast
qed

theorem identifiers_sequential_witness:
  "length (identifiers bridge0
             [DoConnect (Fn 0), StdoutData ''connected'',
              DoQuery ''select 1'' (Fn 7) 5 (0, 7), DoDisconnect,
              DoQuery ''select 2'' (Fn 8) 6 (0, 9),
              DoConnect (Fn 0), StdoutData ''connected'',
              DoQuerySync ''select 3'' 3 7 (1, 0)]) \<le> 2 ^ 53
   \<and> identifiers bridge0
         [DoConnect (Fn 0), StdoutData ''connected'',
          DoQuery ''select 1'' (Fn 7) 5 (0, 7), DoDisconnect,
          DoQuery ''select 2'' (Fn 8) 6 (0, 9),
          DoConnect (Fn 0), StdoutData ''connected'',
          DoQuerySync ''select 3'' 3 7 (1, 0)] = [Num 1, Num 2]"
proof -
  define ops where
    "ops = [DoConnect (Fn 0), StdoutData ''connected'',
            DoQuery ''select 1'' (Fn 7) 5 (0, 7), DoDisconnect,
            DoQuery ''select 2'' (Fn 8) 6 (0, 9),
            DoConnect (Fn 0), StdoutData ''connected'',
            DoQuerySync ''select 3'' 3 7 (1, 0)]"
  have len: "length (identifiers bridge0 ops) = 2"
    unfolding ops_def
    by (simp add: handshake_defs encoding_defs bridge0_def Sybase_def prepareQuery_connected
          prepareQuery_not_connected wire_field_msgId query_def querySync_def stdin_write_def
          disconnect_def isConnected_def js_incr_def)
  then have l: "length (identifiers bridge0 ops) \<le> 2 ^ 53" by simp
  note s = identifiers_sequential
             [of "''db.example''" "''5000''" "''sales''" "''user''" "''secret''" False
                 "''JavaSybaseLink.jar''" "''utf8''" False ops, folded bridge0_def]
  from s [OF l] have "identifiers bridge0 ops
                        = map (\<lambda>i. Num (int i)) [1 ..< Suc (length (identifiers bridge0 ops))]"
    by (rule conjunct1)
  then have "identifiers bridge0 ops = map (\<lambda>i. Num (int i)) [1 ..< Suc 2]"
    by (simp only: len)
  moreover have "[1 ..< Suc 2] = [1, 2 :: nat]" by code_simp
  ultimately have e: "identifiers bridge0 ops = [Num 1, Num 2]" by simp
  from l e show ?thesis unfolding ops_def by blast
qed

section \<open>Teardown leaves the rest alone\<close>

text \<open>
  C10, as the code has it. Where a worker is attached, \<^verbatim>\<open>disconnect()\<close> marks the worker
  killed and sets \<^verbatim>\<open>connected\<close> to false, and that is all: it invokes no continuation
  itself and raises nothing, every other field keeps its value, so the entries of the
  table stay and the counter is not reset. The listeners stay attached too, and the two
  dispatch handlers invoke after it what they would have invoked before it. After a
  reconnect through a new handshake the table and the counter are still those of before,
  and the next query is given the increment of the old counter.
\<close>

theorem disconnect_frame:
  assumes "javaDB st = Some p"
  shows "disconnect st
           = (st\<lparr> javaDB := Some (p\<lparr> killed := True \<rparr>), connected := False \<rparr>, [], None)
       \<and> currentMessages (fst (disconnect st)) = currentMessages st
       \<and> queryCount (fst (disconnect st)) = queryCount st
       \<and> jsonParser (fst (disconnect st)) = jsonParser st
       \<and> map_option stdout_data (javaDB (fst (disconnect st))) = Some (stdout_data p)
       \<and> map_option stderr_data (javaDB (fst (disconnect st))) = Some (stderr_data p)
       \<and> snd (onSQLResponse (fst (disconnect st)) jsonMsg) = snd (onSQLResponse st jsonMsg)
       \<and> snd (onSQLError (fst (disconnect st)) text) = snd (onSQLError st text)
       \<and> currentMessages (run st [DoDisconnect, DoConnect c, StdoutData ''connected''])
           = currentMessages st
       \<and> queryCount (run st [DoDisconnect, DoConnect c, StdoutData ''connected''])
           = queryCount st
       \<and> allocated (run st [DoDisconnect, DoConnect c, StdoutData ''connected''])
           (DoQuery q c' now hr) = Some (Num (int (js_incr (queryCount st))))"
proof -
  let ?st' = "run st [DoDisconnect, DoConnect c, StdoutData ''connected'']"
  have d: "disconnect st
             = (st\<lparr> javaDB := Some (p\<lparr> killed := True \<rparr>), connected := False \<rparr>, [], None)"
    using assms by (simp add: disconnect_def)
  have resp: "snd (onSQLResponse (fst (disconnect st)) jsonMsg) = snd (onSQLResponse st jsonMsg)"
    by (simp add: d onSQLResponse_def Let_def split: sum.splits option.splits prod.splits)
  have err: "snd (onSQLError (fst (disconnect st)) text) = snd (onSQLError st text)"
    by (simp add: d onSQLError_def Let_def split: prod.splits)
  have r: "isConnected ?st' \<and> currentMessages ?st' = currentMessages st
            \<and> queryCount ?st' = queryCount st"
    using assms
    by (cases c; cases "known_encoding (encoding st)")
       (simp_all add: disconnect_def handshake_defs isConnected_def)
  then have "allocated ?st' (DoQuery q c' now hr) = Some (Num (int (js_incr (queryCount st))))"
    using allocated_connected(1) [of ?st' q c' now hr] by simp
  with r d resp err show ?thesis by simp
qed

theorem disconnect_frame_witness:
  "javaDB pending0 \<noteq> None
   \<and> snd (disconnect pending0) = ([], None)
   \<and> \<not> isConnected (fst (disconnect pending0))
   \<and> currentMessages (fst (disconnect pending0))
       = ObjectTable
           [(''1'', TMsg \<lparr> msgId = 1, sql = ''select 1'', sentTime = 5, callback = Fn 7,
                            hrstart = (0, 7) \<rparr>), (''cat'', TNum 1)]
   \<and> jsonParser (fst (disconnect pending0)) = [OnSQLResponse]
   \<and> allocated (run pending0 [DoDisconnect, DoConnect (Fn 0), StdoutData ''connected''])
       (DoQuery ''select 2'' (Fn 8) 6 (0, 9)) = Some (Num 2)"
proof -
  obtain p where p: "javaDB pending0 = Some p"
    using pending0_fields(5) by (cases "javaDB pending0") auto
  note t = disconnect_frame
             [OF p, where c = "Fn 0" and q = "''select 2''" and c' = "Fn 8" and now = 6
                and hr = "(0, 9)"]
  from t have a: "snd (disconnect pending0) = ([], None)"
    and b: "\<not> isConnected (fst (disconnect pending0))"
    by (simp_all add: isConnected_def)
  from t have c: "currentMessages (fst (disconnect pending0)) = currentMessages pending0"
    and l: "jsonParser (fst (disconnect pending0)) = jsonParser pending0"
    by blast+
  from t have "allocated (run pending0 [DoDisconnect, DoConnect (Fn 0), StdoutData ''connected''])
       (DoQuery ''select 2'' (Fn 8) 6 (0, 9)) = Some (Num (int (js_incr (queryCount pending0))))"
    by blast
  then have d: "allocated (run pending0 [DoDisconnect, DoConnect (Fn 0), StdoutData ''connected''])
       (DoQuery ''select 2'' (Fn 8) 6 (0, 9)) = Some (Num 2)"
    by (simp only: pending0_fields js_incr_def) simp
  from p a b c l d show ?thesis by (simp only: pending0_fields) simp
qed

text \<open>The claim as stated, that the continuations of the entries left pending are never
  invoked, fails: \<^verbatim>\<open>disconnect()\<close> detaches no listener. With one query pending, error
  data that the worker writes after the disconnect fails its continuation, and a response
  that arrives after the disconnect resolves it.\<close>

theorem disconnect_pending_invoked_later:
  "all_calls pending0 [DoDisconnect, StderrData ''bye'']
     = [Callback 7 (Some (Error ''bye'')) Undefined]
   \<and> all_calls pending0
        [DoDisconnect,
         ParserData (Obj [(''msgId'', Num 1), (''result'', Arr [Num 4, Num 5])])]
       = [Callback 7 None (Arr [Num 4, Num 5])]"
proof -
  obtain p where p: "javaDB pending0 = Some p" "stderr_data p = [OnSQLError]"
    using pending0_fields(5) by (cases "javaDB pending0") auto
  show ?thesis
    by (simp add: disconnect_def p stderr_data_event_def dispatch_defs pending0_fields)
qed

end
